theory Spec2Isabelle
  imports Complex_Main "HOL-Library.Multiset"
begin

section \<open>Strings and formatting\<close>

text \<open>
  Go strings are byte sequences; \<open>string\<close> (a list of 8-bit characters) is the same
  thing.  The helpers of package \<open>strings\<close> that the program calls are written out.
\<close>

definition HasPrefix :: "string \<Rightarrow> string \<Rightarrow> bool" where
  "HasPrefix s p = (take (length p) s = p)"

definition TrimPrefix :: "string \<Rightarrow> string \<Rightarrow> string" where
  "TrimPrefix s p = (if HasPrefix s p then drop (length p) s else s)"

definition HasSuffix :: "string \<Rightarrow> string \<Rightarrow> bool" where
  "HasSuffix s x = (length x \<le> length s \<and> drop (length s - length x) s = x)"

definition TrimSuffix :: "string \<Rightarrow> string \<Rightarrow> string" where
  "TrimSuffix s x = (if HasSuffix s x then take (length s - length x) s else s)"

text \<open>The verb \<open>%d\<close> of \<open>fmt.Sprintf\<close>: a decimal numeral, with a sign when negative.\<close>

definition digitChar :: "nat \<Rightarrow> char" where
  "digitChar d = ''0123456789'' ! d"

fun decimal :: "nat \<Rightarrow> string" where
  "decimal n = (if n < 10 then [digitChar n] else decimal (n div 10) @ [digitChar (n mod 10)])"

declare decimal.simps [simp del]

definition formatInt :: "int \<Rightarrow> string" where
  "formatInt i = (if i < 0 then CHR ''-'' # decimal (nat (- i)) else decimal (nat i))"

section \<open>ISRC validation\<close>

text \<open>
  \<open>isrcRegex\<close> is the compiled pattern
  \<^verbatim>\<open>^[A-Z]{2}[A-Z0-9]{3}\d{2}\d{5}$\<close>.  Every piece of it is a character class
  repeated a fixed number of times, so a pattern is a list of such pieces, a class is a
  union of byte ranges, and the anchors \<^verbatim>\<open>^\<close> and \<^verbatim>\<open>$\<close> (which in Go, without
  the multi-line flag, match only at the two ends of the text) make \<open>MatchString\<close> a
  match of the whole string.  All classes are ASCII, so a byte above 127 never matches.
\<close>

type_synonym charClass = "(char \<times> char) list"

datatype piece = Repeat charClass nat

definition inClass :: "charClass \<Rightarrow> char \<Rightarrow> bool" where
  "inClass cls c = list_ex (\<lambda>(lo, hi). (of_char lo :: nat) \<le> of_char c \<and> (of_char c :: nat) \<le> of_char hi) cls"

fun MatchString :: "piece list \<Rightarrow> string \<Rightarrow> bool" where
  "MatchString [] s = (s = [])"
| "MatchString (Repeat cls n # ps) s =
     (n \<le> length s \<and> list_all (inClass cls) (take n s) \<and> MatchString ps (drop n s))"

definition upperClass :: charClass where
  "upperClass = [(CHR ''A'', CHR ''Z'')]"

definition upperDigitClass :: charClass where
  "upperDigitClass = [(CHR ''A'', CHR ''Z''), (CHR ''0'', CHR ''9'')]"

definition digitClass :: charClass where
  "digitClass = [(CHR ''0'', CHR ''9'')]"

definition isrcRegex :: "piece list" where
  "isrcRegex = [Repeat upperClass 2, Repeat upperDigitClass 3, Repeat digitClass 2, Repeat digitClass 5]"

definition isValidISRC :: "string \<Rightarrow> bool" where
  "isValidISRC isrc = MatchString isrcRegex isrc"

text \<open>
  The specification's wording of the same format: a 12-character code of two capital
  letters, three capital letters or digits, and seven digits.
\<close>

definition isUpper :: "char \<Rightarrow> bool" where
  "isUpper c = ((65::nat) \<le> of_char c \<and> (of_char c :: nat) \<le> 90)"

definition isDigit :: "char \<Rightarrow> bool" where
  "isDigit c = ((48::nat) \<le> of_char c \<and> (of_char c :: nat) \<le> 57)"

definition specISRC :: "string \<Rightarrow> bool" where
  "specISRC s =
     (length s = 12
      \<and> list_all isUpper (take 2 s)
      \<and> list_all (\<lambda>c. isUpper c \<or> isDigit c) (take 3 (drop 2 s))
      \<and> list_all isDigit (drop 5 s))"

section \<open>Data model\<close>

record DownloadRequest =
  ISRC :: string
  Service :: string
  Query :: string
  TrackName :: string
  ArtistName :: string
  AlbumName :: string
  AlbumArtist :: string
  ReleaseDate :: string
  CoverURL :: string
  ApiURL :: string
  OutputDir :: string
  AudioFormat :: string
  FilenameFormat :: string
  TrackNumber :: bool
  Position :: int
  UseAlbumTrackNumber :: bool
  SpotifyID :: string
  EmbedLyrics :: bool
  EmbedMaxQualityCover :: bool
  ServiceURL :: string
  Duration :: int
  ItemID :: string
  SpotifyTrackNumber :: int
  SpotifyDiscNumber :: int
  SpotifyTotalTracks :: int
  SpotifyTotalDiscs :: int
  Copyright :: string
  Publisher :: string

text \<open>\<open>DownloadResponse\<close>; its \<open>ItemID\<close> field is \<open>RespItemID\<close> here.\<close>

record DownloadResponse =
  Success :: bool
  Message :: string
  File :: string
  Error :: string
  AlreadyExists :: bool
  RespItemID :: string

text \<open>The zero value of \<open>DownloadResponse\<close>, which every composite literal starts from.\<close>

definition emptyResponse :: DownloadResponse where
  "emptyResponse = \<lparr>Success = False, Message = [], File = [], Error = [],
     AlreadyExists = False, RespItemID = []\<rparr>"

text \<open>The anonymous struct \<open>trackResp.Track\<close> that the metadata backfill decodes into.\<close>

record TrackMeta =
  metaCopyright :: string
  metaPublisher :: string
  metaTotalDiscs :: int
  metaTotalTracks :: int
  metaTrackNumber :: int
  metaReleaseDate :: string

subsection \<open>The queue tracker\<close>

datatype ItemState = Queued | Downloading | Completed | Skipped | Failed | Cancelled

record DownloadItem =
  state :: ItemState
  itemTrackName :: string
  itemArtistName :: string
  itemAlbumName :: string
  itemSpotifyID :: string
  filePath :: string
  errorMessage :: string
  sizeMB :: rat

subsection \<open>Provider strategies and observable effects\<close>

text \<open>
  One constructor per downloader method that \<open>DownloadTrack\<close> can call.  The Tidal
  methods on a fixed mirror carry the API base URL the downloader was built with; the
  Qobuz method carries the ISRC and the quality, which are not request fields.  Every
  other argument of the calls is a field of the request or the Spotify track URL.
\<close>

datatype strategy =
    AmazonDownloadByURL
  | AmazonDownloadBySpotifyID
  | TidalDownloadByURLWithFallback
  | TidalFallbackDownload
  | TidalDownloadByURL string
  | TidalDownload string
  | QobuzDownloadByISRC string string

text \<open>
  Every call that leaves the function is recorded, in order, so that "no provider was
  contacted" and "no file was touched" are statements about the record.
\<close>

datatype event =
    CallAddToQueue string
  | CallStartDownloadItem string
  | CallSkipDownloadItem string string
  | CallFailDownloadItem string string
  | CallCompleteDownloadItem string string rat
  | CallSetDownloading bool
  | FetchSpotifyData string
  | Stat string
  | Remove string
  | Printf string
  | RunStrategy strategy
  | SongLinkLookup string
  | DeezerISRCLookup string
  | GoEmbedLyrics string
  | GoAddHistory string

fun isProviderEvent :: "event \<Rightarrow> bool" where
  "isProviderEvent (RunStrategy _) = True"
| "isProviderEvent (SongLinkLookup _) = True"
| "isProviderEvent (DeezerISRCLookup _) = True"
| "isProviderEvent _ = False"

fun isIOEvent :: "event \<Rightarrow> bool" where
  "isIOEvent (FetchSpotifyData _) = True"
| "isIOEvent (Stat _) = True"
| "isIOEvent (Remove _) = True"
| "isIOEvent e = isProviderEvent e"

text \<open>
  The state the function works on: the queue registry and its global flag, the files on
  disk (path to size in bytes) and the record of calls.
\<close>

record world =
  queue :: "string \<rightharpoonup> DownloadItem"
  isDownloading :: bool
  files :: "string \<rightharpoonup> int"
  trace :: "event list"

text \<open>
  What the function reads from outside: the clock, the path and filename helpers of the
  backend package, the Spotify data source (\<open>Inl\<close> a fetch error; \<open>Inr None\<close> a
  response that does not survive the JSON round trip into \<open>trackResp\<close>), the provider
  strategies (each may write files and returns a path and an optional error), the two
  ISRC resolution services, the outcome of \<open>os.Remove\<close> on an existing file, and the
  application directory used by the Spotify auth client.
\<close>

record env =
  unixNano :: int
  NormalizePath :: "string \<Rightarrow> string"
  Join :: "string \<Rightarrow> string \<Rightarrow> string"
  BuildExpectedFilename ::
    "string \<Rightarrow> string \<Rightarrow> string \<Rightarrow> string \<Rightarrow> string \<Rightarrow> string \<Rightarrow> bool \<Rightarrow> int \<Rightarrow> int \<Rightarrow> bool \<Rightarrow> string"
  GetFilteredSpotifyData :: "string \<Rightarrow> string + TrackMeta option"
  runStrategy ::
    "strategy \<Rightarrow> DownloadRequest \<Rightarrow> string \<Rightarrow> (string \<rightharpoonup> int) \<Rightarrow> string \<times> string option \<times> (string \<rightharpoonup> int)"
  GetDeezerURLFromSpotify :: "string \<Rightarrow> string + string"
  GetDeezerISRC :: "string \<Rightarrow> string + string"
  removeError :: "string \<Rightarrow> string option"
  GetFFmpegDir :: "string + string"

definition emit :: "event \<Rightarrow> world \<Rightarrow> world" where
  "emit e w = w\<lparr>trace := trace w @ [e]\<rparr>"

text \<open>\<open>os.Stat\<close> succeeds exactly on the paths that hold a file.\<close>

definition osStat :: "string \<Rightarrow> world \<Rightarrow> int option \<times> world" where
  "osStat path w = (files w path, emit (Stat path) w)"

text \<open>
  \<open>os.Remove\<close>: an error when nothing is there or when the removal is refused,
  otherwise the file is gone.
\<close>

definition osRemove :: "env \<Rightarrow> string \<Rightarrow> world \<Rightarrow> string option \<times> world" where
  "osRemove en path w =
     (let w1 = emit (Remove path) w in
      if files w1 path = None then (Some (''remove '' @ path @ '': no such file or directory''), w1)
      else case removeError en path of
             Some e \<Rightarrow> (Some e, w1)
           | None \<Rightarrow> (None, w1\<lparr>files := (files w1)(path := None)\<rparr>))"

section \<open>Queue tracker operations\<close>

text \<open>
  The queue tracker lives in package \<open>backend\<close>, outside the files at hand.  Its
  operations follow the specification's state machine
  \<open>Queued \<rightarrow> Downloading \<rightarrow> {Completed, Skipped, Failed}\<close>: a transition is taken only
  along one of these edges, an item in any other state (or an unknown identifier) is left
  as it is.  Each operation records its call.
\<close>

text \<open>Modelled from the spec: \<open>AddToQueue\<close> of the queue tracker registers the item
  under its identifier in state Queued, with the descriptive metadata set at creation.\<close>

definition AddToQueue :: "string \<Rightarrow> string \<Rightarrow> string \<Rightarrow> string \<Rightarrow> string \<Rightarrow> world \<Rightarrow> world" where
  "AddToQueue itemID trackName artistName albumName spotifyID w =
     emit (CallAddToQueue itemID)
       (w\<lparr>queue := (queue w)(itemID \<mapsto>
            \<lparr>state = Queued, itemTrackName = trackName, itemArtistName = artistName,
             itemAlbumName = albumName, itemSpotifyID = spotifyID, filePath = [],
             errorMessage = [], sizeMB = 0\<rparr>)\<rparr>)"

text \<open>Modelled from the spec: the common shape of the transition operations of the
  queue tracker, which move an item out of one given state and leave every other item
  and state alone.\<close>

definition transition :: "ItemState \<Rightarrow> (DownloadItem \<Rightarrow> DownloadItem) \<Rightarrow> string \<Rightarrow> world \<Rightarrow> world" where
  "transition src f itemID w =
     (case queue w itemID of
        None \<Rightarrow> w
      | Some it \<Rightarrow> if state it = src then w\<lparr>queue := (queue w)(itemID \<mapsto> f it)\<rparr> else w)"

text \<open>Modelled from the spec: \<open>StartItem\<close> of the queue tracker, Queued to Downloading.\<close>

definition StartDownloadItem :: "string \<Rightarrow> world \<Rightarrow> world" where
  "StartDownloadItem itemID w =
     emit (CallStartDownloadItem itemID) (transition Queued (\<lambda>it. it\<lparr>state := Downloading\<rparr>) itemID w)"

text \<open>Modelled from the spec: \<open>SkipItem(path)\<close> of the queue tracker, Downloading to
  Skipped, setting the file path.\<close>

definition SkipDownloadItem :: "string \<Rightarrow> string \<Rightarrow> world \<Rightarrow> world" where
  "SkipDownloadItem itemID path w =
     emit (CallSkipDownloadItem itemID path)
       (transition Downloading (\<lambda>it. it\<lparr>state := Skipped, filePath := path\<rparr>) itemID w)"

text \<open>Modelled from the spec: \<open>FailItem(message)\<close> of the queue tracker, Downloading to
  Failed, setting the error message.\<close>

definition FailDownloadItem :: "string \<Rightarrow> string \<Rightarrow> world \<Rightarrow> world" where
  "FailDownloadItem itemID msg w =
     emit (CallFailDownloadItem itemID msg)
       (transition Downloading (\<lambda>it. it\<lparr>state := Failed, errorMessage := msg\<rparr>) itemID w)"

text \<open>Modelled from the spec: \<open>CompleteItem(path, sizeMB)\<close> of the queue tracker,
  Downloading to Completed, setting the file path and the size.\<close>

definition CompleteDownloadItem :: "string \<Rightarrow> string \<Rightarrow> rat \<Rightarrow> world \<Rightarrow> world" where
  "CompleteDownloadItem itemID path mb w =
     emit (CallCompleteDownloadItem itemID path mb)
       (transition Downloading (\<lambda>it. it\<lparr>state := Completed, filePath := path, sizeMB := mb\<rparr>) itemID w)"

text \<open>Modelled from the spec: the global "is any download active" flag of the queue
  tracker, set by \<open>SetDownloading\<close>.\<close>

definition SetDownloading :: "bool \<Rightarrow> world \<Rightarrow> world" where
  "SetDownloading b w = emit (CallSetDownloading b) (w\<lparr>isDownloading := b\<rparr>)"

definition itemState :: "world \<Rightarrow> string \<Rightarrow> ItemState option" where
  "itemState w itemID = map_option state (queue w itemID)"

section \<open>DownloadTrack\<close>

subsection \<open>Defaults, registration, metadata backfill\<close>

definition normalize :: "env \<Rightarrow> DownloadRequest \<Rightarrow> DownloadRequest" where
  "normalize en req0 =
     (let req1 = (if Service req0 = [] then req0\<lparr>Service := ''tidal''\<rparr> else req0);
          req2 = (if OutputDir req1 = [] then req1\<lparr>OutputDir := ''.''\<rparr>
                  else req1\<lparr>OutputDir := NormalizePath en (OutputDir req1)\<rparr>);
          req3 = (if AudioFormat req2 = [] then req2\<lparr>AudioFormat := ''LOSSLESS''\<rparr> else req2)
      in if FilenameFormat req3 = [] then req3\<lparr>FilenameFormat := ''title-artist''\<rparr> else req3)"

definition synthItemID :: "env \<Rightarrow> DownloadRequest \<Rightarrow> string" where
  "synthItemID en req =
     (if SpotifyID req \<noteq> [] then SpotifyID req @ ''-'' @ formatInt (unixNano en)
      else TrackName req @ ''-'' @ ArtistName req @ ''-'' @ formatInt (unixNano en))"

definition registerItem :: "env \<Rightarrow> DownloadRequest \<Rightarrow> world \<Rightarrow> string \<times> world" where
  "registerItem en req w =
     (if ItemID req = [] then
        (synthItemID en req,
         AddToQueue (synthItemID en req) (TrackName req) (ArtistName req) (AlbumName req) (SpotifyID req) w)
      else (ItemID req, w))"

definition spotifyURL :: "DownloadRequest \<Rightarrow> string" where
  "spotifyURL req =
     (if SpotifyID req \<noteq> [] then ''https://open.spotify.com/track/'' @ SpotifyID req else [])"

definition needsBackfill :: "DownloadRequest \<Rightarrow> bool" where
  "needsBackfill req =
     (SpotifyID req \<noteq> [] \<and>
      (Copyright req = [] \<or> Publisher req = [] \<or> SpotifyTotalDiscs req = 0 \<or>
       ReleaseDate req = [] \<or> SpotifyTotalTracks req = 0 \<or> SpotifyTrackNumber req = 0))"

definition fillAbsent :: "TrackMeta \<Rightarrow> DownloadRequest \<Rightarrow> DownloadRequest" where
  "fillAbsent t req0 =
     (let req1 = (if Copyright req0 = [] \<and> metaCopyright t \<noteq> []
                  then req0\<lparr>Copyright := metaCopyright t\<rparr> else req0);
          req2 = (if Publisher req1 = [] \<and> metaPublisher t \<noteq> []
                  then req1\<lparr>Publisher := metaPublisher t\<rparr> else req1);
          req3 = (if SpotifyTotalDiscs req2 = 0 \<and> metaTotalDiscs t > 0
                  then req2\<lparr>SpotifyTotalDiscs := metaTotalDiscs t\<rparr> else req2);
          req4 = (if SpotifyTotalTracks req3 = 0 \<and> metaTotalTracks t > 0
                  then req3\<lparr>SpotifyTotalTracks := metaTotalTracks t\<rparr> else req3);
          req5 = (if SpotifyTrackNumber req4 = 0 \<and> metaTrackNumber t > 0
                  then req4\<lparr>SpotifyTrackNumber := metaTrackNumber t\<rparr> else req4)
      in if ReleaseDate req5 = [] \<and> metaReleaseDate t \<noteq> []
         then req5\<lparr>ReleaseDate := metaReleaseDate t\<rparr> else req5)"

definition trackURL :: "DownloadRequest \<Rightarrow> string" where
  "trackURL req = ''https://open.spotify.com/track/'' @ SpotifyID req"

definition backfillFields :: "env \<Rightarrow> DownloadRequest \<Rightarrow> DownloadRequest" where
  "backfillFields en req =
     (if needsBackfill req then
        (case GetFilteredSpotifyData en (trackURL req) of
           Inl fetchErr \<Rightarrow> req
         | Inr None \<Rightarrow> req
         | Inr (Some t) \<Rightarrow> fillAbsent t req)
      else req)"

definition backfill :: "env \<Rightarrow> DownloadRequest \<Rightarrow> world \<Rightarrow> DownloadRequest \<times> world" where
  "backfill en req w =
     (backfillFields en req,
      if needsBackfill req then emit (FetchSpotifyData (trackURL req)) w else w)"

subsection \<open>Existence short-circuit\<close>

definition expectedPath :: "env \<Rightarrow> DownloadRequest \<Rightarrow> string" where
  "expectedPath en req =
     Join en (OutputDir req)
       (BuildExpectedFilename en (TrackName req) (ArtistName req) (AlbumName req)
          (AlbumArtist req) (ReleaseDate req) (FilenameFormat req) (TrackNumber req)
          (Position req) (SpotifyDiscNumber req) (UseAlbumTrackNumber req))"

text \<open>The test \<open>err == nil && fileInfo.Size() > 100*1024\<close> on the result of \<open>os.Stat\<close>.\<close>

definition largeEnough :: "int option \<Rightarrow> bool" where
  "largeEnough st = (case st of None \<Rightarrow> False | Some sz \<Rightarrow> sz > 100 * 1024)"

subsection \<open>Provider dispatch\<close>

text \<open>
  The \<open>switch\<close> either returns from \<open>DownloadTrack\<close> at once (\<open>Returned\<close>, with the
  response and the error) or leaves \<open>filename\<close> and \<open>err\<close> set by a strategy (\<open>Ran\<close>).
\<close>

datatype dispatched = Returned DownloadResponse string | Ran string "string option"

definition failEarly :: "string \<Rightarrow> string \<Rightarrow> dispatched" where
  "failEarly msg err = Returned (emptyResponse\<lparr>Success := False, Error := msg\<rparr>) err"

definition invoke :: "env \<Rightarrow> strategy \<Rightarrow> DownloadRequest \<Rightarrow> world \<Rightarrow> dispatched \<times> world" where
  "invoke en st req w =
     (case runStrategy en st req (spotifyURL req) (files w) of
        (filename, err, files') \<Rightarrow> (Ran filename err, emit (RunStrategy st) (w\<lparr>files := files'\<rparr>)))"

definition dispatchAmazon :: "env \<Rightarrow> DownloadRequest \<Rightarrow> world \<Rightarrow> dispatched \<times> world" where
  "dispatchAmazon en req w =
     (if ServiceURL req \<noteq> [] then invoke en AmazonDownloadByURL req w
      else if SpotifyID req = [] then
        (failEarly ''Spotify ID is required for Amazon Music''
           ''spotify ID is required for Amazon Music'', w)
      else invoke en AmazonDownloadBySpotifyID req w)"

definition dispatchTidal :: "env \<Rightarrow> DownloadRequest \<Rightarrow> world \<Rightarrow> dispatched \<times> world" where
  "dispatchTidal en req w =
     (if ApiURL req = [] \<or> ApiURL req = ''auto'' then
        (if ServiceURL req \<noteq> [] then invoke en TidalDownloadByURLWithFallback req w
         else if SpotifyID req = [] then
           (failEarly ''Spotify ID is required for Tidal'' ''spotify ID is required for Tidal'', w)
         else invoke en TidalFallbackDownload req w)
      else
        (if ServiceURL req \<noteq> [] then invoke en (TidalDownloadByURL (ApiURL req)) req w
         else if SpotifyID req = [] then
           (failEarly ''Spotify ID is required for Tidal'' ''spotify ID is required for Tidal'', w)
         else invoke en (TidalDownload (ApiURL req)) req w))"

definition qobuzDownload :: "env \<Rightarrow> string \<Rightarrow> string \<Rightarrow> DownloadRequest \<Rightarrow> world \<Rightarrow> dispatched \<times> world" where
  "qobuzDownload en deezerISRC quality req w =
     (if deezerISRC = [] then
        (failEarly ''ISRC is required for Qobuz (could not fetch from Deezer)''
           ''ISRC is required for Qobuz'', w)
      else invoke en (QobuzDownloadByISRC deezerISRC quality) req w)"

definition dispatchQobuz :: "env \<Rightarrow> DownloadRequest \<Rightarrow> world \<Rightarrow> dispatched \<times> world" where
  "dispatchQobuz en req w =
     (let quality = (if AudioFormat req = [] then ''6'' else AudioFormat req);
          deezerISRC = (if length (ISRC req) \<noteq> 12 \<or> \<not> isValidISRC (ISRC req) then [] else ISRC req)
      in if deezerISRC = [] \<and> SpotifyID req \<noteq> [] then
           (let w1 = emit (SongLinkLookup (SpotifyID req)) w in
            case GetDeezerURLFromSpotify en (SpotifyID req) of
              Inl e \<Rightarrow> (failEarly (''Failed to get Deezer URL: '' @ e) e, w1)
            | Inr deezerURL \<Rightarrow>
                (let w2 = emit (DeezerISRCLookup deezerURL) w1 in
                 case GetDeezerISRC en deezerURL of
                   Inl e \<Rightarrow> (failEarly (''Failed to get ISRC from Deezer: '' @ e) e, w2)
                 | Inr isrc \<Rightarrow> qobuzDownload en isrc quality req w2))
         else qobuzDownload en deezerISRC quality req w)"

definition dispatch :: "env \<Rightarrow> DownloadRequest \<Rightarrow> world \<Rightarrow> dispatched \<times> world" where
  "dispatch en req w =
     (if Service req = ''amazon'' then dispatchAmazon en req w
      else if Service req = ''tidal'' then dispatchTidal en req w
      else if Service req = ''qobuz'' then dispatchQobuz en req w
      else (failEarly (''Unknown service: '' @ Service req) (''unknown service: '' @ Service req), w))"

subsection \<open>Outcome handling\<close>

definition cleanupPartial :: "env \<Rightarrow> string \<Rightarrow> world \<Rightarrow> world" where
  "cleanupPartial en filename w =
     (if filename \<noteq> [] \<and> \<not> HasPrefix filename ''EXISTS:'' then
        (case osStat filename w of
           (None, w1) \<Rightarrow> w1
         | (Some sz, w1) \<Rightarrow>
             (let w2 = emit (Printf (''Removing corrupted/partial file after failed download: '' @ filename @ [CHR 0x0A])) w1
              in case osRemove en filename w2 of
                   (Some removeErr, w3) \<Rightarrow>
                     emit (Printf (''Warning: Failed to remove corrupted file '' @ filename @ '': '' @ removeErr @ [CHR 0x0A])) w3
                 | (None, w3) \<Rightarrow> w3))
      else w)"

definition onError :: "env \<Rightarrow> string \<Rightarrow> string \<Rightarrow> string \<Rightarrow> world \<Rightarrow> DownloadResponse \<times> string option \<times> world" where
  "onError en itemID filename err w =
     (emptyResponse\<lparr>Success := False, Error := ''Download failed: '' @ err, RespItemID := itemID\<rparr>,
      Some err,
      cleanupPartial en filename (FailDownloadItem itemID (''Download failed: '' @ err) w))"

text \<open>
  The two goroutines started on a fresh success (lyrics embedding, history record) run
  detached from the call; only their start is recorded.  The size handed to
  \<open>CompleteDownloadItem\<close> is the byte count divided by \<open>1024 * 1024\<close>.
\<close>

definition onSuccess :: "env \<Rightarrow> DownloadRequest \<Rightarrow> string \<Rightarrow> string \<Rightarrow> world \<Rightarrow> DownloadResponse \<times> string option \<times> world" where
  "onSuccess en req itemID filename0 w =
     (let alreadyExists = HasPrefix filename0 ''EXISTS:'';
          filename = (if alreadyExists then TrimPrefix filename0 ''EXISTS:'' else filename0);
          w1 = (if \<not> alreadyExists \<and> SpotifyID req \<noteq> [] \<and> EmbedLyrics req \<and> HasSuffix filename ''.flac''
                then emit (GoEmbedLyrics filename) w else w);
          w2 = (if alreadyExists then SkipDownloadItem itemID filename w1
                else (case osStat filename w1 of
                        (Some sz, w') \<Rightarrow>
                          emit (GoAddHistory filename)
                            (CompleteDownloadItem itemID filename (of_int sz / (1024 * 1024)) w')
                      | (None, w') \<Rightarrow>
                          emit (GoAddHistory filename) (CompleteDownloadItem itemID filename 0 w')))
      in (\<lparr>Success = True,
           Message = (if alreadyExists then ''File already exists'' else ''Download completed successfully''),
           File = filename, Error = [], AlreadyExists = alreadyExists, RespItemID = itemID\<rparr>,
          None, w2))"

definition download :: "env \<Rightarrow> DownloadRequest \<Rightarrow> string \<Rightarrow> world \<Rightarrow> DownloadResponse \<times> string option \<times> world" where
  "download en req itemID w =
     (case dispatch en req w of
        (Returned resp err, w1) \<Rightarrow> (resp, Some err, w1)
      | (Ran filename (Some err), w1) \<Rightarrow> onError en itemID filename err w1
      | (Ran filename None, w1) \<Rightarrow> onSuccess en req itemID filename w1)"

definition skipResponse :: "string \<Rightarrow> string \<Rightarrow> DownloadResponse" where
  "skipResponse path itemID =
     \<lparr>Success = True, Message = ''File already exists'', File = path, Error = [],
      AlreadyExists = True, RespItemID = itemID\<rparr>"

definition proceed :: "env \<Rightarrow> DownloadRequest \<Rightarrow> string \<Rightarrow> world \<Rightarrow> DownloadResponse \<times> string option \<times> world" where
  "proceed en req itemID w =
     (if TrackName req \<noteq> [] \<and> ArtistName req \<noteq> [] then
        (case osStat (expectedPath en req) w of
           (st, w1) \<Rightarrow>
             if largeEnough st then
               (skipResponse (expectedPath en req) itemID, None,
                SkipDownloadItem itemID (expectedPath en req) w1)
             else download en req itemID w1)
      else download en req itemID w)"

subsection \<open>The whole function\<close>

text \<open>
  \<open>prepare\<close> is the straight-line part from the defaults to the metadata backfill.  The
  deferred \<open>SetDownloading(false)\<close> is registered after the item has been started, so
  it runs on every return but the first one.
\<close>

definition prepare :: "env \<Rightarrow> DownloadRequest \<Rightarrow> world \<Rightarrow> DownloadRequest \<times> string \<times> world" where
  "prepare en req0 w0 =
     (let req1 = normalize en req0;
          (itemID, w1) = registerItem en req1 w0;
          w2 = StartDownloadItem itemID (SetDownloading True w1);
          (req, w3) = backfill en req1 w2
      in (req, itemID, w3))"

definition DownloadTrack :: "env \<Rightarrow> DownloadRequest \<Rightarrow> world \<Rightarrow> DownloadResponse \<times> string option \<times> world" where
  "DownloadTrack en req0 w0 =
     (if Service req0 = ''qobuz'' \<and> ISRC req0 = [] \<and> SpotifyID req0 = [] then
        (emptyResponse\<lparr>Success := False, Error := ''Spotify ID is required for Qobuz''\<rparr>,
         Some ''spotify ID is required for Qobuz'', w0)
      else
        (case prepare en req0 w0 of
           (req, itemID, w3) \<Rightarrow>
             (case proceed en req itemID w3 of
                (resp, err, w4) \<Rightarrow> (resp, err, SetDownloading False w4))))"

section \<open>CheckFilesExistence\<close>

text \<open>The fields of \<open>CheckFileExistenceRequest\<close> and \<open>CheckFileExistenceResult\<close>
  carry the prefixes \<open>chk\<close> and \<open>res\<close>, since the request of \<open>DownloadTrack\<close> has
  fields of the same names.\<close>

record CheckFileExistenceRequest =
  chkSpotifyID :: string
  chkTrackName :: string
  chkArtistName :: string
  chkAlbumName :: string
  chkAlbumArtist :: string
  chkReleaseDate :: string
  chkTrackNumber :: int
  chkDiscNumber :: int
  chkPosition :: int
  chkUseAlbumTrackNumber :: bool
  chkFilenameFormat :: string
  chkIncludeTrackNumber :: bool
  chkAudioFormat :: string

record CheckFileExistenceResult =
  resSpotifyID :: string
  resExists :: bool
  resFilePath :: string
  resTrackName :: string
  resArtistName :: string

text \<open>The zero value that \<open>make\<close> fills the result slice with.\<close>

definition zeroResult :: CheckFileExistenceResult where
  "zeroResult = \<lparr>resSpotifyID = [], resExists = False, resFilePath = [],
     resTrackName = [], resArtistName = []\<rparr>"

definition checkedPath :: "env \<Rightarrow> string \<Rightarrow> CheckFileExistenceRequest \<Rightarrow> string" where
  "checkedPath en outputDir t =
     (let filenameFormat = (if chkFilenameFormat t = [] then ''title-artist'' else chkFilenameFormat t);
          trackNumber = (if chkUseAlbumTrackNumber t \<and> chkTrackNumber t > 0
                         then chkTrackNumber t else chkPosition t);
          fileExt = (if chkAudioFormat t = ''mp3'' then ''.mp3'' else ''.flac'');
          expectedFilenameBase =
            BuildExpectedFilename en (chkTrackName t) (chkArtistName t) (chkAlbumName t)
              (chkAlbumArtist t) (chkReleaseDate t) filenameFormat (chkIncludeTrackNumber t)
              trackNumber (chkDiscNumber t) (chkUseAlbumTrackNumber t)
      in Join en outputDir (TrimSuffix expectedFilenameBase ''.flac'' @ fileExt))"

text \<open>
  The body of one goroutine: the result it sends, and the paths it handed to
  \<open>os.Stat\<close> on the way.
\<close>

definition checkTrack ::
  "env \<Rightarrow> (string \<rightharpoonup> int) \<Rightarrow> string \<Rightarrow> CheckFileExistenceRequest \<Rightarrow> CheckFileExistenceResult \<times> string list" where
  "checkTrack en fs outputDir t =
     (let res = \<lparr>resSpotifyID = chkSpotifyID t, resExists = False, resFilePath = [],
                 resTrackName = chkTrackName t, resArtistName = chkArtistName t\<rparr>
      in if chkTrackName t = [] \<or> chkArtistName t = [] then (res, [])
         else if largeEnough (fs (checkedPath en outputDir t))
              then (res\<lparr>resExists := True, resFilePath := checkedPath en outputDir t\<rparr>,
                    [checkedPath en outputDir t])
              else (res, [checkedPath en outputDir t]))"

text \<open>
  Goroutine \<open>i\<close> sends the pair of \<open>i\<close> and its result on a channel that has room for
  all of them.  The collecting loop receives the messages in the order the goroutines
  finish, which the scheduler decides: \<open>order\<close> lists the goroutine indices in that
  order.  The loop runs \<open>len(tracks)\<close> times and stores each result at its own index.
\<close>

definition collect ::
  "nat \<Rightarrow> (nat \<times> CheckFileExistenceResult) list \<Rightarrow> CheckFileExistenceResult list" where
  "collect n received =
     foldl (\<lambda>results r. results[fst r := snd r]) (replicate n zeroResult) (take n received)"

definition CheckFilesExistence ::
  "env \<Rightarrow> (string \<rightharpoonup> int) \<Rightarrow> nat list \<Rightarrow> string \<Rightarrow> CheckFileExistenceRequest list \<Rightarrow> CheckFileExistenceResult list" where
  "CheckFilesExistence en fs order outputDir0 tracks =
     (if length tracks = 0 then []
      else
        (let outputDir = NormalizePath en outputDir0;
             sent = (\<lambda>idx. (idx, fst (checkTrack en fs outputDir (tracks ! idx))))
         in collect (length tracks) (map sent order)))"

section \<open>The Spotify auth client\<close>

text \<open>\<open>time.Time\<close>: its zero value, or an instant.\<close>

datatype Time = ZeroTime | Instant int

record SpotifyAuthClient =
  accessToken :: string
  refreshToken :: string
  expiresAt :: Time
  codeVerifier :: string

definition getTokenPath :: "env \<Rightarrow> string + string" where
  "getTokenPath en =
     (case GetFFmpegDir en of
        Inl err \<Rightarrow> Inl err
      | Inr dir \<Rightarrow> Inr (Join en dir ''spotify_tokens.json''))"

definition clearTokens :: "env \<Rightarrow> SpotifyAuthClient \<Rightarrow> world \<Rightarrow> string option \<times> SpotifyAuthClient \<times> world" where
  "clearTokens en c w =
     (let c1 = c\<lparr>accessToken := [], refreshToken := [], expiresAt := ZeroTime\<rparr> in
      case getTokenPath en of
        Inl err \<Rightarrow> (Some err, c1, w)
      | Inr tokenPath \<Rightarrow> (case osRemove en tokenPath w of (r, w1) \<Rightarrow> (r, c1, w1)))"

definition IsAuthenticated :: "SpotifyAuthClient \<Rightarrow> bool" where
  "IsAuthenticated c = (accessToken c \<noteq> [] \<and> refreshToken c \<noteq> [])"

definition Logout :: "env \<Rightarrow> SpotifyAuthClient \<Rightarrow> world \<Rightarrow> string option \<times> SpotifyAuthClient \<times> world" where
  "Logout en c w = clearTokens en c w"

section \<open>Notions used to state the properties\<close>

text \<open>
  The request as it stands after the defaults and the metadata backfill, the identifier
  of the queue item the call works on, the test of the existence short-circuit seen from
  the caller's request, and the state in which the \<open>switch\<close> over the service is entered.
\<close>

definition plannedRequest :: "env \<Rightarrow> DownloadRequest \<Rightarrow> DownloadRequest" where
  "plannedRequest en req0 = backfillFields en (normalize en req0)"

definition itemIDof :: "env \<Rightarrow> DownloadRequest \<Rightarrow> string" where
  "itemIDof en req0 = (if ItemID req0 = [] then synthItemID en req0 else ItemID req0)"

definition rejectedAtEntry :: "DownloadRequest \<Rightarrow> bool" where
  "rejectedAtEntry req0 = (Service req0 = ''qobuz'' \<and> ISRC req0 = [] \<and> SpotifyID req0 = [])"

definition skipsExisting :: "env \<Rightarrow> DownloadRequest \<Rightarrow> world \<Rightarrow> bool" where
  "skipsExisting en req0 w0 =
     (TrackName req0 \<noteq> [] \<and> ArtistName req0 \<noteq> [] \<and>
      largeEnough (files w0 (expectedPath en (plannedRequest en req0))))"

definition entryEvents :: "env \<Rightarrow> DownloadRequest \<Rightarrow> event list" where
  "entryEvents en req0 =
     (if ItemID req0 = [] then [CallAddToQueue (itemIDof en req0)] else [])
     @ [CallSetDownloading True, CallStartDownloadItem (itemIDof en req0)]
     @ (if needsBackfill (normalize en req0) then [FetchSpotifyData (trackURL req0)] else [])
     @ (if TrackName req0 \<noteq> [] \<and> ArtistName req0 \<noteq> []
        then [Stat (expectedPath en (plannedRequest en req0))] else [])"

definition atSwitch :: "env \<Rightarrow> DownloadRequest \<Rightarrow> world \<Rightarrow> world" where
  "atSwitch en req0 w0 =
     (case prepare en req0 w0 of
        (req, itemID, w) \<Rightarrow>
          if TrackName req \<noteq> [] \<and> ArtistName req \<noteq> []
          then emit (Stat (expectedPath en req)) w else w)"

definition finish :: "DownloadResponse \<times> string option \<times> world \<Rightarrow> DownloadResponse \<times> string option \<times> world" where
  "finish r = (case r of (resp, err, w) \<Rightarrow> (resp, err, SetDownloading False w))"

text \<open>The queue item of the call is one the tracker can still move: freshly registered,
  or supplied by the caller and not yet in a terminal state.\<close>

definition itemOpen :: "DownloadRequest \<Rightarrow> world \<Rightarrow> bool" where
  "itemOpen req0 w0 =
     (ItemID req0 = [] \<or> itemState w0 (ItemID req0) = Some Queued
      \<or> itemState w0 (ItemID req0) = Some Downloading)"

definition newEvents :: "world \<Rightarrow> world \<Rightarrow> event list" where
  "newEvents w0 w = drop (length (trace w0)) (trace w)"

text \<open>The three shapes of a response that a caller tells apart.\<close>

definition failedShape :: "DownloadResponse \<Rightarrow> bool" where
  "failedShape r = (\<not> Success r \<and> Error r \<noteq> [])"

definition existingShape :: "DownloadResponse \<Rightarrow> bool" where
  "existingShape r = (Success r \<and> AlreadyExists r)"

definition freshShape :: "DownloadResponse \<Rightarrow> bool" where
  "freshShape r = (Success r \<and> \<not> AlreadyExists r)"

text \<open>The provider and resolution calls, and the I/O calls, that a state has seen.\<close>

definition providerCalls :: "world \<Rightarrow> event list" where
  "providerCalls w = filter isProviderEvent (trace w)"

definition ioCalls :: "world \<Rightarrow> event list" where
  "ioCalls w = filter isIOEvent (trace w)"

text \<open>Two requests agree on every field that the metadata backfill never writes.\<close>

definition unchangedOutsideBackfill :: "DownloadRequest \<Rightarrow> DownloadRequest \<Rightarrow> bool" where
  "unchangedOutsideBackfill a b =
     (ISRC a = ISRC b \<and> Service a = Service b \<and> Query a = Query b
      \<and> TrackName a = TrackName b \<and> ArtistName a = ArtistName b \<and> AlbumName a = AlbumName b
      \<and> AlbumArtist a = AlbumArtist b \<and> CoverURL a = CoverURL b \<and> ApiURL a = ApiURL b
      \<and> OutputDir a = OutputDir b \<and> AudioFormat a = AudioFormat b
      \<and> FilenameFormat a = FilenameFormat b \<and> TrackNumber a = TrackNumber b
      \<and> Position a = Position b \<and> UseAlbumTrackNumber a = UseAlbumTrackNumber b
      \<and> SpotifyID a = SpotifyID b \<and> EmbedLyrics a = EmbedLyrics b
      \<and> EmbedMaxQualityCover a = EmbedMaxQualityCover b \<and> ServiceURL a = ServiceURL b
      \<and> Duration a = Duration b \<and> ItemID a = ItemID b
      \<and> SpotifyDiscNumber a = SpotifyDiscNumber b)"

text \<open>
  The provider-side calls of the Qobuz branch once the caller's ISRC has been thrown
  away and a Spotify ID is at hand: the SongLink lookup, then the Deezer lookup when the
  first has answered, then the strategy with the ISRC that Deezer gave, when it gave one.
\<close>

definition qobuzFallbackCalls :: "env \<Rightarrow> DownloadRequest \<Rightarrow> event list" where
  "qobuzFallbackCalls en req0 =
     SongLinkLookup (SpotifyID req0) #
     (case GetDeezerURLFromSpotify en (SpotifyID req0) of
        Inl e \<Rightarrow> []
      | Inr deezerURL \<Rightarrow>
          DeezerISRCLookup deezerURL #
          (case GetDeezerISRC en deezerURL of
             Inl e \<Rightarrow> []
           | Inr isrc \<Rightarrow>
               if isrc = [] then []
               else [RunStrategy (QobuzDownloadByISRC isrc
                      (if AudioFormat req0 = [] then ''LOSSLESS'' else AudioFormat req0))]))"

section \<open>Concrete surroundings for examples\<close>

definition sampleMeta :: TrackMeta where
  "sampleMeta = \<lparr>metaCopyright = ''(C) Label'', metaPublisher = ''Label'', metaTotalDiscs = 1,
     metaTotalTracks = 12, metaTrackNumber = 3, metaReleaseDate = ''2020-01-01''\<rparr>"

text \<open>
  An environment in which the metadata fetch fails, the expected file name is
  \<open>title - artist.flac\<close>, every strategy writes nothing and reports the error
  \<open>offline\<close> with an empty path, both resolution services fail, and files can be removed.
\<close>

definition offlineEnv :: env where
  "offlineEnv =
     \<lparr>unixNano = 7,
      NormalizePath = (\<lambda>p. p),
      Join = (\<lambda>d f. d @ ''/'' @ f),
      BuildExpectedFilename = (\<lambda>track artist album albumArtist date fmt incl pos disc useAlbum.
         track @ '' - '' @ artist @ ''.flac''),
      GetFilteredSpotifyData = (\<lambda>url. Inl ''timeout''),
      runStrategy = (\<lambda>st req url fs. ([], Some ''offline'', fs)),
      GetDeezerURLFromSpotify = (\<lambda>sid. Inl ''no link''),
      GetDeezerISRC = (\<lambda>url. Inl ''no isrc''),
      removeError = (\<lambda>p. None),
      GetFFmpegDir = Inr ''/app''\<rparr>"

text \<open>The metadata fetch fails, but the strategy writes a file of 5 MiB and succeeds.\<close>

definition fetchDownEnv :: env where
  "fetchDownEnv =
     offlineEnv\<lparr>runStrategy := (\<lambda>st req url fs.
        (''out/T - A.flac'', None, fs(''out/T - A.flac'' \<mapsto> 5242880)))\<rparr>"

text \<open>The metadata fetch answers with \<open>sampleMeta\<close>.\<close>

definition metaEnv :: env where
  "metaEnv = offlineEnv\<lparr>GetFilteredSpotifyData := (\<lambda>url. Inr (Some sampleMeta))\<rparr>"

text \<open>The strategy leaves a truncated file behind and fails; the second environment
  also refuses to remove it.\<close>

definition partialEnv :: env where
  "partialEnv =
     offlineEnv\<lparr>runStrategy := (\<lambda>st req url fs.
        (''out/part.flac'', Some ''connection reset'', fs(''out/part.flac'' \<mapsto> 2048)))\<rparr>"

definition stuckEnv :: env where
  "stuckEnv = partialEnv\<lparr>removeError := (\<lambda>p. Some ''permission denied'')\<rparr>"

text \<open>The strategy reports that the file is already there.\<close>

definition existsEnv :: env where
  "existsEnv =
     offlineEnv\<lparr>runStrategy := (\<lambda>st req url fs. (''EXISTS:out/T - A.flac'', None, fs))\<rparr>"

text \<open>Both resolution services answer, and the strategy succeeds.\<close>

definition deezerEnv :: env where
  "deezerEnv =
     fetchDownEnv\<lparr>GetDeezerURLFromSpotify := (\<lambda>sid. Inr (''https://deezer/'' @ sid)),
       GetDeezerISRC := (\<lambda>url. Inr ''USRC17607839'')\<rparr>"

definition emptyRequest :: DownloadRequest where
  "emptyRequest =
     \<lparr>ISRC = [], Service = [], Query = [], TrackName = [], ArtistName = [], AlbumName = [],
      AlbumArtist = [], ReleaseDate = [], CoverURL = [], ApiURL = [], OutputDir = [],
      AudioFormat = [], FilenameFormat = [], TrackNumber = False, Position = 0,
      UseAlbumTrackNumber = False, SpotifyID = [], EmbedLyrics = False,
      EmbedMaxQualityCover = False, ServiceURL = [], Duration = 0, ItemID = [],
      SpotifyTrackNumber = 0, SpotifyDiscNumber = 0, SpotifyTotalTracks = 0,
      SpotifyTotalDiscs = 0, Copyright = [], Publisher = []\<rparr>"

definition trackTA :: DownloadRequest where
  "trackTA = emptyRequest\<lparr>TrackName := ''T'', ArtistName := ''A'', SpotifyID := ''abc'',
     OutputDir := ''out''\<rparr>"

definition emptyWorld :: world where
  "emptyWorld = \<lparr>queue = Map.empty, isDownloading = False, files = Map.empty, trace = []\<rparr>"

text \<open>A queue that holds the item \<open>job1\<close> of an earlier, failed download.\<close>

definition retryWorld :: world where
  "retryWorld =
     emptyWorld\<lparr>queue := [''job1'' \<mapsto>
       \<lparr>state = Failed, itemTrackName = ''T'', itemArtistName = ''A'', itemAlbumName = [],
        itemSpotifyID = ''abc'', filePath = [], errorMessage = ''Download failed: offline'',
        sizeMB = 0\<rparr>]\<rparr>"

definition diskWith :: "string \<Rightarrow> int \<Rightarrow> world" where
  "diskWith path sz = emptyWorld\<lparr>files := [path \<mapsto> sz]\<rparr>"

definition loggedIn :: SpotifyAuthClient where
  "loggedIn = \<lparr>accessToken = ''tok'', refreshToken = ''ref'', expiresAt = Instant 99,
     codeVerifier = []\<rparr>"

definition emptyCheck :: CheckFileExistenceRequest where
  "emptyCheck =
     \<lparr>chkSpotifyID = [], chkTrackName = [], chkArtistName = [], chkAlbumName = [],
      chkAlbumArtist = [], chkReleaseDate = [], chkTrackNumber = 0, chkDiscNumber = 0,
      chkPosition = 0, chkUseAlbumTrackNumber = False, chkFilenameFormat = [],
      chkIncludeTrackNumber = False, chkAudioFormat = []\<rparr>"

section \<open>Basic facts about the model\<close>

subsection \<open>The ISRC pattern\<close>

lemma inClass_upper: "inClass upperClass c = isUpper c"
  by (simp add: inClass_def upperClass_def isUpper_def)

lemma inClass_digit: "inClass digitClass c = isDigit c"
  by (simp add: inClass_def digitClass_def isDigit_def)

lemma inClass_upperDigit: "inClass upperDigitClass c = (isUpper c \<or> isDigit c)"
  by (simp add: inClass_def upperDigitClass_def isUpper_def isDigit_def)

lemma list_all_split:
  "list_all P (take m xs) \<and> list_all P (drop m xs) \<longleftrightarrow> list_all P xs"
proof -
  have "list_all P xs = list_all P (take m xs @ drop m xs)" by simp
  also have "\<dots> = (list_all P (take m xs) \<and> list_all P (drop m xs))"
    by (simp only: list_all_append)
  finally show ?thesis by simp
qed

lemma isValidISRC_iff_spec: "isValidISRC s = specISRC s"
proof (cases "length s = 12")
  case True
  have seven: "list_all isDigit (take 2 (drop 5 s)) \<and> list_all isDigit (drop 7 s)
      \<longleftrightarrow> list_all isDigit (drop 5 s)"
    using list_all_split [of isDigit 2 "drop 5 s"] by simp
  show ?thesis
    using True seven
    by (auto simp add: isValidISRC_def isrcRegex_def specISRC_def
        inClass_upper inClass_digit inClass_upperDigit list_all_iff)
next
  case False
  have "\<not> isValidISRC s"
    using False by (auto simp add: isValidISRC_def isrcRegex_def)
  moreover have "\<not> specISRC s"
    using False by (simp add: specISRC_def)
  ultimately show ?thesis by simp
qed

subsection \<open>What the defaults and the backfill leave alone\<close>

lemma normalize_frame:
  "ISRC (normalize en r) = ISRC r" "TrackName (normalize en r) = TrackName r"
  "ArtistName (normalize en r) = ArtistName r" "AlbumName (normalize en r) = AlbumName r"
  "SpotifyID (normalize en r) = SpotifyID r" "ItemID (normalize en r) = ItemID r"
  "ServiceURL (normalize en r) = ServiceURL r" "ApiURL (normalize en r) = ApiURL r"
  "Service (normalize en r) = (if Service r = [] then ''tidal'' else Service r)"
  by (simp_all add: normalize_def Let_def)

lemma backfillFields_frame:
  "ISRC (backfillFields en r) = ISRC r" "TrackName (backfillFields en r) = TrackName r"
  "ArtistName (backfillFields en r) = ArtistName r" "AlbumName (backfillFields en r) = AlbumName r"
  "SpotifyID (backfillFields en r) = SpotifyID r" "ItemID (backfillFields en r) = ItemID r"
  "ServiceURL (backfillFields en r) = ServiceURL r" "ApiURL (backfillFields en r) = ApiURL r"
  "Service (backfillFields en r) = Service r"
  by (simp_all add: backfillFields_def fillAbsent_def Let_def split: sum.splits option.splits)

lemma planned_frame:
  "ISRC (plannedRequest en r) = ISRC r" "TrackName (plannedRequest en r) = TrackName r"
  "ArtistName (plannedRequest en r) = ArtistName r" "AlbumName (plannedRequest en r) = AlbumName r"
  "SpotifyID (plannedRequest en r) = SpotifyID r" "ItemID (plannedRequest en r) = ItemID r"
  "ServiceURL (plannedRequest en r) = ServiceURL r" "ApiURL (plannedRequest en r) = ApiURL r"
  "Service (plannedRequest en r) = (if Service r = [] then ''tidal'' else Service r)"
  by (simp_all add: plannedRequest_def normalize_frame backfillFields_frame)

lemma synthItemID_normalize: "synthItemID en (normalize en r) = synthItemID en r"
  by (simp add: synthItemID_def normalize_frame)

lemma trackURL_normalize: "trackURL (normalize en r) = trackURL r"
  by (simp add: trackURL_def normalize_frame)

lemma prepare_request: "fst (prepare en req0 w0) = plannedRequest en req0"
  by (simp add: prepare_def Let_def backfill_def plannedRequest_def split: prod.splits)

lemma prepare_itemID: "fst (snd (prepare en req0 w0)) = itemIDof en req0"
  by (simp add: prepare_def Let_def backfill_def registerItem_def itemIDof_def
      normalize_frame synthItemID_normalize split: prod.splits)

text \<open>The components of the state through the queue operations.\<close>

lemma emit_simps [simp]:
  "files (emit e w) = files w" "queue (emit e w) = queue w"
  "trace (emit e w) = trace w @ [e]" "isDownloading (emit e w) = isDownloading w"
  by (simp_all add: emit_def)

lemma transition_simps [simp]:
  "files (transition s f i w) = files w" "trace (transition s f i w) = trace w"
  "isDownloading (transition s f i w) = isDownloading w"
  by (simp_all add: transition_def split: option.splits)

lemma queueop_files [simp]:
  "files (AddToQueue i a b c d w) = files w"
  "files (StartDownloadItem i w) = files w"
  "files (SkipDownloadItem i p w) = files w"
  "files (FailDownloadItem i m w) = files w"
  "files (CompleteDownloadItem i p mb w) = files w"
  "files (SetDownloading b' w) = files w"
  by (simp_all add: AddToQueue_def StartDownloadItem_def SkipDownloadItem_def
      FailDownloadItem_def CompleteDownloadItem_def SetDownloading_def)

lemma queueop_trace [simp]:
  "trace (AddToQueue i a b c d w) = trace w @ [CallAddToQueue i]"
  "trace (StartDownloadItem i w) = trace w @ [CallStartDownloadItem i]"
  "trace (SkipDownloadItem i p w) = trace w @ [CallSkipDownloadItem i p]"
  "trace (FailDownloadItem i m w) = trace w @ [CallFailDownloadItem i m]"
  "trace (CompleteDownloadItem i p mb w) = trace w @ [CallCompleteDownloadItem i p mb]"
  "trace (SetDownloading b' w) = trace w @ [CallSetDownloading b']"
  by (simp_all add: AddToQueue_def StartDownloadItem_def SkipDownloadItem_def
      FailDownloadItem_def CompleteDownloadItem_def SetDownloading_def)

lemma atSwitch_files: "files (atSwitch en req0 w0) = files w0"
  by (simp add: atSwitch_def prepare_def Let_def backfill_def registerItem_def split: prod.splits)

lemma atSwitch_trace: "trace (atSwitch en req0 w0) = trace w0 @ entryEvents en req0"
  by (simp add: atSwitch_def prepare_def Let_def backfill_def registerItem_def entryEvents_def
      itemIDof_def normalize_frame backfillFields_frame synthItemID_normalize trackURL_normalize
      plannedRequest_def split: prod.splits)

lemma itemState_emit [simp]: "itemState (emit e w) i = itemState w i"
  by (simp add: itemState_def)

lemma itemState_SetDownloading [simp]: "itemState (SetDownloading b w) i = itemState w i"
  by (simp add: itemState_def SetDownloading_def)

lemma itemState_Add [simp]: "itemState (AddToQueue i a b c d w) i = Some Queued"
  by (simp add: itemState_def AddToQueue_def)

lemma itemState_Start:
  "itemState w i = Some Queued \<or> itemState w i = Some Downloading \<Longrightarrow>
   itemState (StartDownloadItem i w) i = Some Downloading"
  by (auto simp add: itemState_def StartDownloadItem_def transition_def split: option.splits)

lemma itemState_Skip:
  "itemState w i = Some Downloading \<Longrightarrow>
   itemState (SkipDownloadItem i p w) i = Some Skipped \<and>
   map_option filePath (queue (SkipDownloadItem i p w) i) = Some p"
  by (auto simp add: itemState_def SkipDownloadItem_def transition_def split: option.splits)

lemma itemState_Fail:
  "itemState w i = Some Downloading \<Longrightarrow>
   itemState (FailDownloadItem i m w) i = Some Failed \<and>
   map_option errorMessage (queue (FailDownloadItem i m w) i) = Some m"
  by (auto simp add: itemState_def FailDownloadItem_def transition_def split: option.splits)

lemma atSwitch_itemState:
  "itemOpen req0 w0 \<Longrightarrow> itemState (atSwitch en req0 w0) (itemIDof en req0) = Some Downloading"
  by (auto simp add: atSwitch_def prepare_def Let_def backfill_def registerItem_def itemOpen_def
      itemIDof_def normalize_frame synthItemID_normalize itemState_Start split: prod.splits)

lemma DownloadTrack_rejected:
  "rejectedAtEntry req0 \<Longrightarrow>
   DownloadTrack en req0 w0 =
     (emptyResponse\<lparr>Success := False, Error := ''Spotify ID is required for Qobuz''\<rparr>,
      Some ''spotify ID is required for Qobuz'', w0)"
  by (simp add: DownloadTrack_def rejectedAtEntry_def)

lemma prepare_split:
  "prepare en req0 w0 = (plannedRequest en req0, itemIDof en req0, snd (snd (prepare en req0 w0)))"
  using prepare_request [of en req0 w0] prepare_itemID [of en req0 w0]
  by (cases "prepare en req0 w0") simp

lemma prepare_files: "files (snd (snd (prepare en req0 w0))) = files w0"
  by (simp add: prepare_def Let_def backfill_def registerItem_def split: prod.splits)

lemma DownloadTrack_proceeds:
  assumes "\<not> rejectedAtEntry req0"
  shows "DownloadTrack en req0 w0 =
      finish (proceed en (plannedRequest en req0) (itemIDof en req0) (snd (snd (prepare en req0 w0))))"
proof -
  obtain r i w where p: "prepare en req0 w0 = (r, i, w)"
    by (cases "prepare en req0 w0") auto
  have r: "r = plannedRequest en req0"
    using prepare_request [of en req0 w0] p by simp
  have i: "i = itemIDof en req0"
    using prepare_itemID [of en req0 w0] p by simp
  show ?thesis
    using assms p r i by (auto simp add: DownloadTrack_def rejectedAtEntry_def finish_def)
qed

lemma atSwitch_unfold:
  "atSwitch en req0 w0 =
     (if TrackName req0 \<noteq> [] \<and> ArtistName req0 \<noteq> []
      then emit (Stat (expectedPath en (plannedRequest en req0))) (snd (snd (prepare en req0 w0)))
      else snd (snd (prepare en req0 w0)))"
proof -
  obtain r i w where p: "prepare en req0 w0 = (r, i, w)"
    by (cases "prepare en req0 w0") auto
  have r: "r = plannedRequest en req0"
    using prepare_request [of en req0 w0] p by simp
  show ?thesis
    using p r by (simp add: atSwitch_def planned_frame)
qed

lemma DownloadTrack_skips:
  assumes "\<not> rejectedAtEntry req0" and "skipsExisting en req0 w0"
  shows "DownloadTrack en req0 w0 =
     (skipResponse (expectedPath en (plannedRequest en req0)) (itemIDof en req0), None,
      SetDownloading False
        (SkipDownloadItem (itemIDof en req0) (expectedPath en (plannedRequest en req0))
           (atSwitch en req0 w0)))"
  using assms(2)
  by (simp add: DownloadTrack_proceeds [OF assms(1)] proceed_def osStat_def skipsExisting_def
      planned_frame prepare_files finish_def atSwitch_unfold)

lemma DownloadTrack_downloads:
  assumes "\<not> rejectedAtEntry req0" and "\<not> skipsExisting en req0 w0"
  shows "DownloadTrack en req0 w0 =
     finish (download en (plannedRequest en req0) (itemIDof en req0) (atSwitch en req0 w0))"
  using assms(2)
  by (auto simp add: DownloadTrack_proceeds [OF assms(1)] proceed_def osStat_def skipsExisting_def
      planned_frame prepare_files finish_def atSwitch_unfold)

subsection \<open>Provider calls and the queue along the paths of the function\<close>

lemma providerCalls_emit [simp]:
  "providerCalls (emit e w) = providerCalls w @ (if isProviderEvent e then [e] else [])"
  by (simp add: providerCalls_def)

lemma providerCalls_queueop [simp]:
  "providerCalls (AddToQueue i a b c d w) = providerCalls w"
  "providerCalls (StartDownloadItem i w) = providerCalls w"
  "providerCalls (SkipDownloadItem i p w) = providerCalls w"
  "providerCalls (FailDownloadItem i m w) = providerCalls w"
  "providerCalls (CompleteDownloadItem i p mb w) = providerCalls w"
  "providerCalls (SetDownloading b' w) = providerCalls w"
  by (simp_all add: providerCalls_def)

lemma providerCalls_files_update [simp]:
  "providerCalls (w\<lparr>files := f\<rparr>) = providerCalls w"
  by (simp add: providerCalls_def)

lemma providerCalls_atSwitch: "providerCalls (atSwitch en req0 w0) = providerCalls w0"
  by (simp add: providerCalls_def atSwitch_trace entryEvents_def)

lemma providerCalls_cleanup: "providerCalls (cleanupPartial en f w) = providerCalls w"
  by (simp add: cleanupPartial_def osStat_def osRemove_def Let_def split: option.splits)

lemma providerCalls_download:
  "providerCalls (snd (snd (download en req i w))) = providerCalls (snd (dispatch en req w))"
proof (cases "dispatch en req w")
  case (Pair d wd)
  then show ?thesis
    by (cases d)
      (auto simp add: download_def onError_def onSuccess_def providerCalls_cleanup osStat_def
        Let_def split: option.splits)
qed

lemma providerCalls_finish: "providerCalls (snd (snd (finish r))) = providerCalls (snd (snd r))"
  by (cases r) (simp add: finish_def)

lemma queue_invoke [simp]: "queue (snd (invoke en st req w)) = queue w"
  by (simp add: invoke_def split: prod.splits)

lemma queue_dispatch: "queue (snd (dispatch en req w)) = queue w"
  by (simp add: dispatch_def dispatchAmazon_def dispatchTidal_def dispatchQobuz_def
      qobuzDownload_def Let_def split: sum.splits)

lemma itemState_dispatch: "itemState (snd (dispatch en req w)) i = itemState w i"
  by (simp add: itemState_def queue_dispatch)

lemma dispatch_Returned:
  "dispatch en req w = (Returned resp e, wd) \<Longrightarrow>
     \<not> Success resp \<and> Error resp \<noteq> [] \<and> \<not> AlreadyExists resp"
  by (auto simp add: dispatch_def dispatchAmazon_def dispatchTidal_def dispatchQobuz_def
      qobuzDownload_def invoke_def failEarly_def emptyResponse_def Let_def
      split: sum.splits if_splits prod.splits)

lemma download_shape:
  assumes "download en req i w = (resp, err, w')"
  shows "(\<not> Success resp \<and> Error resp \<noteq> [] \<and> \<not> AlreadyExists resp \<and> err \<noteq> None)
       \<or> (Success resp \<and> err = None)"
proof (cases "dispatch en req w")
  case (Pair d wd)
  show ?thesis
  proof (cases d)
    case (Returned r e)
    with Pair assms dispatch_Returned [of en req w r e wd] show ?thesis
      by (auto simp add: download_def)
  next
    case (Ran f eo)
    with Pair assms show ?thesis
      by (cases eo) (auto simp add: download_def onError_def onSuccess_def emptyResponse_def Let_def)
  qed
qed

subsection \<open>Unfolding the model on concrete inputs\<close>

lemmas model_defs =
  DownloadTrack_def prepare_def proceed_def download_def dispatch_def dispatchAmazon_def
  dispatchTidal_def dispatchQobuz_def qobuzDownload_def invoke_def failEarly_def onError_def
  onSuccess_def cleanupPartial_def osStat_def osRemove_def backfill_def backfillFields_def
  needsBackfill_def fillAbsent_def trackURL_def spotifyURL_def registerItem_def synthItemID_def
  normalize_def expectedPath_def largeEnough_def skipResponse_def emptyResponse_def
  AddToQueue_def StartDownloadItem_def SkipDownloadItem_def FailDownloadItem_def
  CompleteDownloadItem_def SetDownloading_def transition_def emit_def itemState_def
  HasPrefix_def TrimPrefix_def HasSuffix_def formatInt_def decimal.simps digitChar_def

lemmas notion_defs =
  plannedRequest_def itemIDof_def rejectedAtEntry_def skipsExisting_def entryEvents_def
  atSwitch_def finish_def itemOpen_def newEvents_def providerCalls_def ioCalls_def
  failedShape_def existingShape_def freshShape_def

lemmas example_defs =
  offlineEnv_def fetchDownEnv_def metaEnv_def partialEnv_def stuckEnv_def existsEnv_def
  deezerEnv_def emptyRequest_def trackTA_def emptyWorld_def diskWith_def sampleMeta_def
  loggedIn_def emptyCheck_def retryWorld_def

section \<open>Properties: the existence short-circuit\<close>

lemma newEvents_append [simp]: "trace w' = trace w @ es \<Longrightarrow> newEvents w w' = es"
  by (simp add: newEvents_def)

lemma skip_world_facts:
  assumes "\<not> rejectedAtEntry req0" and "skipsExisting en req0 w0"
    and "DownloadTrack en req0 w0 = (resp, err, w1)"
  shows "resp = skipResponse (expectedPath en (plannedRequest en req0)) (itemIDof en req0)"
    and "err = None"
    and "files w1 = files w0"
    and "providerCalls w1 = providerCalls w0"
    and "trace w1 = trace w0 @ entryEvents en req0 @
           [CallSkipDownloadItem (itemIDof en req0) (expectedPath en (plannedRequest en req0)),
            CallSetDownloading False]"
    and "itemOpen req0 w0 \<Longrightarrow>
           itemState w1 (itemIDof en req0) = Some Skipped \<and>
           map_option filePath (queue w1 (itemIDof en req0))
             = Some (expectedPath en (plannedRequest en req0))"
proof -
  let ?p = "expectedPath en (plannedRequest en req0)"
  let ?i = "itemIDof en req0"
  have w1: "w1 = SetDownloading False (SkipDownloadItem ?i ?p (atSwitch en req0 w0))"
    and r: "resp = skipResponse ?p ?i" and e: "err = None"
    using DownloadTrack_skips [OF assms(1,2)] assms(3) by simp_all
  show "resp = skipResponse ?p ?i" by (rule r)
  show "err = None" by (rule e)
  show "files w1 = files w0" by (simp add: w1 atSwitch_files)
  show "providerCalls w1 = providerCalls w0" by (simp add: w1 providerCalls_atSwitch)
  show "trace w1 = trace w0 @ entryEvents en req0 @ [CallSkipDownloadItem ?i ?p, CallSetDownloading False]"
    by (simp add: w1 atSwitch_trace)
  show "itemState w1 ?i = Some Skipped \<and> map_option filePath (queue w1 ?i) = Some ?p"
    if "itemOpen req0 w0"
    using itemState_Skip [OF atSwitch_itemState [OF that, of en], of ?p]
    by (simp add: w1 SetDownloading_def itemState_def)
qed

text \<open>
  Claim C1, as the code has it.  A request that passes the entry check for Qobuz, names
  both track and artist, and finds a file of more than 100 KiB (more than 102400 bytes)
  at the expected path is answered with \<open>Success\<close>, \<open>AlreadyExists\<close> and that path.
  No provider strategy and no resolution service is called, the call
  \<open>SkipDownloadItem\<close> is made for the item, and an item that was freshly registered or
  still open ends in state Skipped with the path recorded.  The files are untouched, so
  a second call (at another time, hence possibly in other surroundings that expect the
  same kind of file) gives \<open>AlreadyExists\<close> again.
\<close>

theorem existing_file_is_skipped:
  assumes "\<not> rejectedAtEntry req0"
    and "TrackName req0 \<noteq> []" and "ArtistName req0 \<noteq> []"
    and "files w0 (expectedPath en (plannedRequest en req0)) = Some sz" and "sz > 100 * 1024"
    and "files w0 (expectedPath en' (plannedRequest en' req0)) = Some sz'" and "sz' > 100 * 1024"
    and "DownloadTrack en req0 w0 = (resp, err, w1)"
    and "DownloadTrack en' req0 w1 = (resp', err', w2)"
  shows "Success resp \<and> AlreadyExists resp \<and> err = None
       \<and> File resp = expectedPath en (plannedRequest en req0)
       \<and> providerCalls w1 = providerCalls w0
       \<and> newEvents w0 w1 = entryEvents en req0 @
            [CallSkipDownloadItem (itemIDof en req0) (expectedPath en (plannedRequest en req0)),
             CallSetDownloading False]
       \<and> (itemOpen req0 w0 \<longrightarrow>
            itemState w1 (itemIDof en req0) = Some Skipped \<and>
            map_option filePath (queue w1 (itemIDof en req0))
              = Some (expectedPath en (plannedRequest en req0)))
       \<and> Success resp' \<and> AlreadyExists resp' \<and> err' = None
       \<and> File resp' = expectedPath en' (plannedRequest en' req0)
       \<and> providerCalls w2 = providerCalls w0"
proof -
  have s1: "skipsExisting en req0 w0"
    using assms(2-5) by (simp add: skipsExisting_def largeEnough_def)
  note first = skip_world_facts [OF assms(1) s1 assms(8)]
  have s2: "skipsExisting en' req0 w1"
    using assms(2,3,6,7) first(3) by (simp add: skipsExisting_def largeEnough_def)
  note second = skip_world_facts [OF assms(1) s2 assms(9)]
  show ?thesis
    using first second by (simp add: skipResponse_def)
qed

text \<open>The theorem at work: a 5 MiB file at \<open>out/T - A.flac\<close>, asked for twice.\<close>

theorem existing_file_is_skipped_witness:
  "\<not> rejectedAtEntry trackTA \<and> TrackName trackTA \<noteq> [] \<and> ArtistName trackTA \<noteq> []
   \<and> files (diskWith ''out/T - A.flac'' 5242880) (expectedPath offlineEnv (plannedRequest offlineEnv trackTA))
       = Some 5242880
   \<and> (5242880 :: int) > 100 * 1024
   \<and> AlreadyExists (fst (DownloadTrack offlineEnv trackTA (diskWith ''out/T - A.flac'' 5242880)))
   \<and> AlreadyExists (fst (DownloadTrack offlineEnv trackTA
        (snd (snd (DownloadTrack offlineEnv trackTA (diskWith ''out/T - A.flac'' 5242880))))))
   \<and> itemState (snd (snd (DownloadTrack offlineEnv trackTA (diskWith ''out/T - A.flac'' 5242880))))
        ''abc-7'' = Some Skipped"
proof -
  let ?w0 = "diskWith ''out/T - A.flac'' 5242880"
  let ?r1 = "DownloadTrack offlineEnv trackTA ?w0"
  let ?r2 = "DownloadTrack offlineEnv trackTA (snd (snd ?r1))"
  have h1: "\<not> rejectedAtEntry trackTA"
    by (simp add: rejectedAtEntry_def example_defs)
  have h2: "TrackName trackTA \<noteq> []" and h3: "ArtistName trackTA \<noteq> []"
    by (simp_all add: example_defs)
  have h4: "files ?w0 (expectedPath offlineEnv (plannedRequest offlineEnv trackTA)) = Some 5242880"
    by (simp add: model_defs notion_defs example_defs Let_def)
  have h5: "(5242880 :: int) > 100 * 1024" by simp
  have id: "itemIDof offlineEnv trackTA = ''abc-7''"
    by (simp add: model_defs notion_defs example_defs)
  have op: "itemOpen trackTA ?w0"
    by (simp add: itemOpen_def example_defs)
  from existing_file_is_skipped [OF h1 h2 h3 h4 h5 h4 h5,
      of "fst ?r1" "fst (snd ?r1)" "snd (snd ?r1)" "fst ?r2" "fst (snd ?r2)" "snd (snd ?r2)"]
  show ?thesis
    using h1 h2 h3 h4 h5 id op by simp
qed

text \<open>
  A file of exactly 100 KiB is not skipped: the strategy runs and the call fails.  And a
  Qobuz request without ISRC and Spotify ID is turned away before the file is looked at.
\<close>

theorem skip_threshold_counterexample:
  "TrackName trackTA \<noteq> [] \<and> ArtistName trackTA \<noteq> []
   \<and> files (diskWith ''out/T - A.flac'' 102400) (expectedPath offlineEnv (plannedRequest offlineEnv trackTA))
       = Some (100 * 1024)
   \<and> \<not> Success (fst (DownloadTrack offlineEnv trackTA (diskWith ''out/T - A.flac'' 102400)))
   \<and> \<not> AlreadyExists (fst (DownloadTrack offlineEnv trackTA (diskWith ''out/T - A.flac'' 102400)))
   \<and> providerCalls (snd (snd (DownloadTrack offlineEnv trackTA (diskWith ''out/T - A.flac'' 102400))))
       = [RunStrategy TidalFallbackDownload]
   \<and> files (diskWith ''out/T - A.flac'' 5242880)
        (expectedPath offlineEnv (plannedRequest offlineEnv (trackTA\<lparr>Service := ''qobuz'', SpotifyID := []\<rparr>)))
       = Some 5242880
   \<and> \<not> Success (fst (DownloadTrack offlineEnv (trackTA\<lparr>Service := ''qobuz'', SpotifyID := []\<rparr>)
         (diskWith ''out/T - A.flac'' 5242880)))"
  by (simp add: model_defs notion_defs example_defs Let_def)

section \<open>Properties: validation at entry and at dispatch\<close>

text \<open>
  Claim C5.  A request for service \<open>qobuz\<close> with neither ISRC nor Spotify ID is turned
  away by the first statement of the function: the response carries the validation
  error, and the state is returned as it was, so nothing was added to the queue, no
  call was recorded and no file was touched.
\<close>

theorem qobuz_without_identifier_rejected:
  assumes "Service req = ''qobuz''" and "ISRC req = []" and "SpotifyID req = []"
  shows "DownloadTrack en req w =
           (\<lparr>Success = False, Message = [], File = [],
             Error = ''Spotify ID is required for Qobuz'', AlreadyExists = False,
             RespItemID = []\<rparr>,
            Some ''spotify ID is required for Qobuz'', w)
       \<and> queue (snd (snd (DownloadTrack en req w))) = queue w
       \<and> ioCalls (snd (snd (DownloadTrack en req w))) = ioCalls w
       \<and> newEvents w (snd (snd (DownloadTrack en req w))) = []"
  using assms by (simp add: DownloadTrack_def emptyResponse_def newEvents_def)

text \<open>The theorem at work, in surroundings where the resolution services would answer.\<close>

theorem qobuz_without_identifier_rejected_witness:
  "Service (emptyRequest\<lparr>Service := ''qobuz''\<rparr>) = ''qobuz''
   \<and> ISRC (emptyRequest\<lparr>Service := ''qobuz''\<rparr>) = []
   \<and> SpotifyID (emptyRequest\<lparr>Service := ''qobuz''\<rparr>) = []
   \<and> fst (snd (DownloadTrack deezerEnv (emptyRequest\<lparr>Service := ''qobuz''\<rparr>) emptyWorld))
       = Some ''spotify ID is required for Qobuz''
   \<and> snd (snd (DownloadTrack deezerEnv (emptyRequest\<lparr>Service := ''qobuz''\<rparr>) emptyWorld)) = emptyWorld"
proof -
  let ?req = "emptyRequest\<lparr>Service := ''qobuz''\<rparr>"
  have h1: "Service ?req = ''qobuz''" and h2: "ISRC ?req = []" and h3: "SpotifyID ?req = []"
    by (simp_all add: emptyRequest_def)
  from qobuz_without_identifier_rejected [OF h1 h2 h3, of deezerEnv emptyWorld]
  show ?thesis using h1 h2 h3 by simp
qed

text \<open>
  Claim C3 fails on the code.  The service is not looked at before the \<open>switch\<close>, so a
  request for a service that is none of \<open>amazon\<close>, \<open>tidal\<close>, \<open>qobuz\<close> first goes
  through the whole entry phase.  On an empty queue and an empty disk the request for
  \<open>napster\<close> registers and starts a new queue item, fetches the Spotify metadata and
  calls \<open>os.Stat\<close> on the expected path, and only then returns \<open>unknown service\<close>.
  With a file of 5 MiB at the expected path the same request is answered with
  \<open>Success\<close> and the unknown service is never reported.  The check at the head of the
  function for Qobuz, by contrast, returns before any of this.
\<close>

theorem unknown_service_validated_late:
  "fst (snd (DownloadTrack offlineEnv (trackTA\<lparr>Service := ''napster''\<rparr>) emptyWorld))
     = Some ''unknown service: napster''
   \<and> ioCalls (snd (snd (DownloadTrack offlineEnv (trackTA\<lparr>Service := ''napster''\<rparr>) emptyWorld)))
     = [FetchSpotifyData ''https://open.spotify.com/track/abc'', Stat ''out/T - A.flac'']
   \<and> itemState emptyWorld ''abc-7'' = None
   \<and> itemState (snd (snd (DownloadTrack offlineEnv (trackTA\<lparr>Service := ''napster''\<rparr>) emptyWorld)))
        ''abc-7'' = Some Downloading
   \<and> trace (snd (snd (DownloadTrack offlineEnv (trackTA\<lparr>Service := ''napster''\<rparr>) emptyWorld)))
     = [CallAddToQueue ''abc-7'', CallSetDownloading True, CallStartDownloadItem ''abc-7'',
        FetchSpotifyData ''https://open.spotify.com/track/abc'', Stat ''out/T - A.flac'',
        CallSetDownloading False]
   \<and> fst (DownloadTrack offlineEnv (trackTA\<lparr>Service := ''napster''\<rparr>)
        (diskWith ''out/T - A.flac'' 5242880))
     = \<lparr>Success = True, Message = ''File already exists'', File = ''out/T - A.flac'',
        Error = [], AlreadyExists = True, RespItemID = ''abc-7''\<rparr>
   \<and> fst (snd (DownloadTrack offlineEnv (trackTA\<lparr>Service := ''napster''\<rparr>)
        (diskWith ''out/T - A.flac'' 5242880))) = None
   \<and> snd (snd (DownloadTrack offlineEnv (trackTA\<lparr>Service := ''qobuz'', SpotifyID := []\<rparr>)
        emptyWorld)) = emptyWorld"
  by (simp add: model_defs notion_defs example_defs Let_def)

text \<open>
  Claim C2 fails on the code.  The returns inside the switch (a missing Spotify ID for
  Amazon or Tidal, an unknown service, a failed ISRC resolution for Qobuz) leave the
  function without a call of \<open>FailDownloadItem\<close>: the item that was registered and
  started stays in state Downloading.  Only an error of the strategy itself reaches the
  code that marks the item Failed.
\<close>

theorem early_error_leaves_item_downloading:
  "fst (snd (DownloadTrack offlineEnv (emptyRequest\<lparr>Service := ''amazon''\<rparr>) emptyWorld))
     = Some ''spotify ID is required for Amazon Music''
   \<and> trace (snd (snd (DownloadTrack offlineEnv (emptyRequest\<lparr>Service := ''amazon''\<rparr>) emptyWorld)))
     = [CallAddToQueue ''--7'', CallSetDownloading True, CallStartDownloadItem ''--7'',
        CallSetDownloading False]
   \<and> itemState (snd (snd (DownloadTrack offlineEnv (emptyRequest\<lparr>Service := ''amazon''\<rparr>) emptyWorld)))
        ''--7'' = Some Downloading
   \<and> fst (snd (DownloadTrack offlineEnv (emptyRequest\<lparr>Service := ''napster''\<rparr>) emptyWorld))
     = Some ''unknown service: napster''
   \<and> itemState (snd (snd (DownloadTrack offlineEnv (emptyRequest\<lparr>Service := ''napster''\<rparr>) emptyWorld)))
        ''--7'' = Some Downloading
   \<and> fst (snd (DownloadTrack offlineEnv (emptyRequest\<lparr>Service := ''qobuz'', SpotifyID := ''abc''\<rparr>) emptyWorld))
     = Some ''no link''
   \<and> itemState (snd (snd (DownloadTrack offlineEnv
        (emptyRequest\<lparr>Service := ''qobuz'', SpotifyID := ''abc''\<rparr>) emptyWorld))) ''abc-7''
     = Some Downloading
   \<and> fst (snd (DownloadTrack offlineEnv trackTA emptyWorld)) = Some ''offline''
   \<and> itemState (snd (snd (DownloadTrack offlineEnv trackTA emptyWorld))) ''abc-7'' = Some Failed"
  by (simp add: model_defs notion_defs example_defs Let_def)

section \<open>Properties: outcome handling\<close>

lemma download_error:
  assumes "dispatch en req w = (Ran filename (Some e), wd)"
  shows "download en req i w = onError en i filename e wd"
  using assms by (simp add: download_def)

lemma download_success:
  assumes "dispatch en req w = (Ran filename None, wd)"
  shows "download en req i w = onSuccess en req i filename wd"
  using assms by (simp add: download_def)

lemma cleanupPartial_existing:
  assumes "filename \<noteq> []" and "\<not> HasPrefix filename ''EXISTS:''" and "files w filename = Some sz"
  shows "files (cleanupPartial en filename w)
           = (case removeError en filename of
                None \<Rightarrow> (files w)(filename := None) | Some re \<Rightarrow> files w)"
    and "trace (cleanupPartial en filename w)
           = trace w @ [Stat filename,
                Printf (''Removing corrupted/partial file after failed download: '' @ filename @ [CHR 0x0A]),
                Remove filename]
             @ (case removeError en filename of
                  None \<Rightarrow> []
                | Some re \<Rightarrow> [Printf (''Warning: Failed to remove corrupted file '' @ filename
                               @ '': '' @ re @ [CHR 0x0A])])"
    and "queue (cleanupPartial en filename w) = queue w"
  using assms
  by (simp_all add: cleanupPartial_def osStat_def osRemove_def Let_def split: option.splits)

text \<open>
  Claim C4.  The selected strategy has returned an error together with a non-empty path
  without the \<open>EXISTS:\<close> prefix, and a file is at that path.  Then the call answers with
  the strategy's error, and before it returns it has called \<open>os.Remove\<close> on the path.
  When the removal succeeds the file is gone and no other file has changed; when it
  fails the files stay as the strategy left them, a warning is printed, and the answer
  is still the strategy's error and nothing else.
\<close>

theorem partial_file_removed_on_error:
  assumes "\<not> rejectedAtEntry req0" and "\<not> skipsExisting en req0 w0"
    and "dispatch en (plannedRequest en req0) (atSwitch en req0 w0) = (Ran filename (Some e), wd)"
    and "filename \<noteq> []" and "\<not> HasPrefix filename ''EXISTS:''"
    and "files wd filename = Some sz"
    and "DownloadTrack en req0 w0 = (resp, err, w1)"
  shows "resp = \<lparr>Success = False, Message = [], File = [], Error = ''Download failed: '' @ e,
                  AlreadyExists = False, RespItemID = itemIDof en req0\<rparr>
       \<and> err = Some e
       \<and> newEvents wd w1 =
           [CallFailDownloadItem (itemIDof en req0) (''Download failed: '' @ e),
            Stat filename,
            Printf (''Removing corrupted/partial file after failed download: '' @ filename @ [CHR 0x0A]),
            Remove filename]
           @ (case removeError en filename of
                None \<Rightarrow> []
              | Some re \<Rightarrow> [Printf (''Warning: Failed to remove corrupted file '' @ filename
                             @ '': '' @ re @ [CHR 0x0A])])
           @ [CallSetDownloading False]
       \<and> (removeError en filename = None \<longrightarrow>
            files w1 filename = None \<and> files w1 = (files wd)(filename := None))
       \<and> (removeError en filename \<noteq> None \<longrightarrow> files w1 = files wd)"
proof -
  let ?i = "itemIDof en req0"
  let ?m = "''Download failed: '' @ e"
  let ?wf = "FailDownloadItem ?i ?m wd"
  have f: "files ?wf filename = Some sz"
    using assms(6) by simp
  have w1: "w1 = SetDownloading False (cleanupPartial en filename ?wf)"
    and r: "resp = emptyResponse\<lparr>Success := False, Error := ?m, RespItemID := ?i\<rparr>"
    and er: "err = Some e"
    using DownloadTrack_downloads [OF assms(1,2)] assms(7) download_error [OF assms(3)]
    by (simp_all add: finish_def onError_def)
  note c = cleanupPartial_existing [OF assms(4,5) f, of en]
  have t: "trace w1 = trace wd @
           ([CallFailDownloadItem ?i ?m, Stat filename,
            Printf (''Removing corrupted/partial file after failed download: '' @ filename @ [CHR 0x0A]),
            Remove filename]
           @ (case removeError en filename of
                None \<Rightarrow> []
              | Some re \<Rightarrow> [Printf (''Warning: Failed to remove corrupted file '' @ filename
                             @ '': '' @ re @ [CHR 0x0A])])
           @ [CallSetDownloading False])"
    using c(2) by (simp add: w1 split: option.splits)
  have fs: "files w1 = (case removeError en filename of
                None \<Rightarrow> (files wd)(filename := None) | Some re \<Rightarrow> files wd)"
    using c(1) by (simp add: w1 split: option.splits)
  show ?thesis
    using newEvents_append [OF t] fs
    by (auto simp add: r er emptyResponse_def split: option.splits)
qed

text \<open>The theorem at work: the strategy leaves 2048 bytes at \<open>out/part.flac\<close> and fails.\<close>

theorem partial_file_removed_on_error_witness:
  "\<not> rejectedAtEntry trackTA \<and> \<not> skipsExisting partialEnv trackTA emptyWorld
   \<and> fst (dispatch partialEnv (plannedRequest partialEnv trackTA) (atSwitch partialEnv trackTA emptyWorld))
       = Ran ''out/part.flac'' (Some ''connection reset'')
   \<and> files (snd (dispatch partialEnv (plannedRequest partialEnv trackTA)
        (atSwitch partialEnv trackTA emptyWorld))) ''out/part.flac'' = Some 2048
   \<and> fst (snd (DownloadTrack partialEnv trackTA emptyWorld)) = Some ''connection reset''
   \<and> files (snd (snd (DownloadTrack partialEnv trackTA emptyWorld))) ''out/part.flac'' = None"
proof -
  let ?d = "dispatch partialEnv (plannedRequest partialEnv trackTA) (atSwitch partialEnv trackTA emptyWorld)"
  let ?r = "DownloadTrack partialEnv trackTA emptyWorld"
  have h1: "\<not> rejectedAtEntry trackTA"
    by (simp add: rejectedAtEntry_def example_defs)
  have h2: "\<not> skipsExisting partialEnv trackTA emptyWorld"
    by (simp add: model_defs notion_defs example_defs Let_def)
  have h3f: "fst ?d = Ran ''out/part.flac'' (Some ''connection reset'')"
    by (simp add: model_defs notion_defs example_defs Let_def)
  have h3: "?d = (Ran ''out/part.flac'' (Some ''connection reset''), snd ?d)"
    using h3f by (cases ?d) simp
  have h4: "''out/part.flac'' \<noteq> []" and h5: "\<not> HasPrefix ''out/part.flac'' ''EXISTS:''"
    by (simp_all add: HasPrefix_def)
  have h6: "files (snd ?d) ''out/part.flac'' = Some 2048"
    by (simp add: model_defs notion_defs example_defs Let_def)
  have h7: "removeError partialEnv ''out/part.flac'' = None"
    by (simp add: example_defs)
  from partial_file_removed_on_error [OF h1 h2 h3 h4 h5 h6,
      of "fst ?r" "fst (snd ?r)" "snd (snd ?r)"]
  show ?thesis using h1 h2 h3f h6 h7 by simp
qed

text \<open>When the removal is refused, the file stays and the answer is the same error.\<close>

lemma removal_refused_example:
  "files (snd (snd (DownloadTrack stuckEnv trackTA emptyWorld))) ''out/part.flac'' = Some 2048
  \<and> fst (snd (DownloadTrack stuckEnv trackTA emptyWorld)) = Some ''connection reset''"
  by (simp add: model_defs notion_defs example_defs Let_def)

lemma atSwitch_queue_closed:
  assumes "\<not> itemOpen req0 w0"
  shows "queue (atSwitch en req0 w0) = queue w0"
  using assms
  by (auto simp add: atSwitch_def prepare_def Let_def backfill_def registerItem_def itemOpen_def
      normalize_frame StartDownloadItem_def SetDownloading_def transition_def itemState_def
      split: prod.splits option.splits)

lemma SkipDownloadItem_closed:
  assumes "itemState w i \<noteq> Some Downloading"
  shows "queue (SkipDownloadItem i p w) = queue w"
  using assms
  by (auto simp add: SkipDownloadItem_def transition_def itemState_def split: option.splits)

text \<open>
  Claim C7, as the code has it.  Every return of the function has exactly one of three
  shapes, and the shape tells the outcome.  It is a failure, with a non-empty \<open>Error\<close>
  and an error value, exactly when the call was turned away at entry, returned from
  inside the switch, or ran a strategy that reported an error.  It is a success on an
  existing file exactly when the existence check found the file or the strategy
  succeeded with a path that carries the \<open>EXISTS:\<close> prefix.  It is a fresh success
  exactly when the strategy succeeded with a path without the prefix.  In the case of
  the prefix the answer carries the path with the prefix taken off and
  \<open>SkipDownloadItem\<close> is called with that path; the item ends in state Skipped when it
  was freshly registered or still open, and an item that the caller supplied and that
  is no longer open stays as it was.
\<close>

theorem response_shape_tells_outcome:
  assumes "DownloadTrack en req0 w0 = (resp, err, w1)"
  shows "((failedShape resp \<and> \<not> existingShape resp \<and> \<not> freshShape resp)
          \<or> (\<not> failedShape resp \<and> existingShape resp \<and> \<not> freshShape resp)
          \<or> (\<not> failedShape resp \<and> \<not> existingShape resp \<and> freshShape resp))
       \<and> (failedShape resp \<longleftrightarrow> err \<noteq> None)
       \<and> (rejectedAtEntry req0 \<longrightarrow> failedShape resp)
       \<and> (\<not> rejectedAtEntry req0 \<and> skipsExisting en req0 w0 \<longrightarrow>
            existingShape resp \<and> File resp = expectedPath en (plannedRequest en req0))
       \<and> (\<not> rejectedAtEntry req0 \<and> \<not> skipsExisting en req0 w0
            \<and> dispatch en (plannedRequest en req0) (atSwitch en req0 w0) = (d, wd) \<longrightarrow>
            (d = Returned r e \<longrightarrow> failedShape resp \<and> resp = r \<and> err = Some e)
            \<and> (d = Ran f (Some e) \<longrightarrow>
                 failedShape resp \<and> Error resp = ''Download failed: '' @ e \<and> err = Some e)
            \<and> (d = Ran f None \<and> \<not> HasPrefix f ''EXISTS:'' \<longrightarrow>
                 freshShape resp \<and> File resp = f)
            \<and> (d = Ran f None \<and> HasPrefix f ''EXISTS:'' \<longrightarrow>
                 existingShape resp
                 \<and> resp = \<lparr>Success = True, Message = ''File already exists'',
                            File = TrimPrefix f ''EXISTS:'', Error = [], AlreadyExists = True,
                            RespItemID = itemIDof en req0\<rparr>
                 \<and> File resp = drop 7 f
                 \<and> newEvents wd w1 =
                     [CallSkipDownloadItem (itemIDof en req0) (drop 7 f), CallSetDownloading False]
                 \<and> (itemOpen req0 w0 \<longrightarrow>
                      itemState w1 (itemIDof en req0) = Some Skipped
                      \<and> map_option filePath (queue w1 (itemIDof en req0)) = Some (drop 7 f))
                 \<and> (\<not> itemOpen req0 w0 \<longrightarrow> queue w1 = queue w0)))"
proof -
  let ?req = "plannedRequest en req0"
  let ?i = "itemIDof en req0"
  let ?w = "atSwitch en req0 w0"
  have shapes: "(\<not> Success resp \<and> Error resp \<noteq> [] \<and> \<not> AlreadyExists resp \<and> err \<noteq> None)
       \<or> (Success resp \<and> err = None)"
  proof (cases "rejectedAtEntry req0")
    case True
    from DownloadTrack_rejected [OF True, of en w0] assms show ?thesis
      by (auto simp add: emptyResponse_def)
  next
    case nr: False
    show ?thesis
    proof (cases "skipsExisting en req0 w0")
      case True
      from skip_world_facts(1,2) [OF nr True assms] show ?thesis
        by (simp add: skipResponse_def)
    next
      case False
      obtain r' e' w' where dl: "download en ?req ?i ?w = (r', e', w')"
        by (cases "download en ?req ?i ?w") auto
      from DownloadTrack_downloads [OF nr False] assms dl have "resp = r'" "err = e'"
        by (simp_all add: finish_def)
      with download_shape [OF dl] show ?thesis by simp
    qed
  qed
  have one: "(failedShape resp \<and> \<not> existingShape resp \<and> \<not> freshShape resp)
          \<or> (\<not> failedShape resp \<and> existingShape resp \<and> \<not> freshShape resp)
          \<or> (\<not> failedShape resp \<and> \<not> existingShape resp \<and> freshShape resp)"
    using shapes by (auto simp add: failedShape_def existingShape_def freshShape_def)
  have err_iff: "failedShape resp \<longleftrightarrow> err \<noteq> None"
    using shapes by (auto simp add: failedShape_def)
  have rej: "failedShape resp" if "rejectedAtEntry req0"
    using DownloadTrack_rejected [OF that, of en w0] assms
    by (auto simp add: failedShape_def emptyResponse_def)
  have skp: "existingShape resp \<and> File resp = expectedPath en ?req"
    if "\<not> rejectedAtEntry req0" and "skipsExisting en req0 w0"
    using skip_world_facts(1) [OF that assms]
    by (simp add: existingShape_def skipResponse_def)
  have returned: "failedShape resp \<and> resp = r \<and> err = Some e"
    if nr: "\<not> rejectedAtEntry req0" and ns: "\<not> skipsExisting en req0 w0"
      and d: "dispatch en ?req ?w = (Returned r e, wd)"
  proof -
    have "resp = r" and "err = Some e"
      using DownloadTrack_downloads [OF nr ns] assms d
      by (simp_all add: finish_def download_def)
    with dispatch_Returned [OF d] show ?thesis
      by (simp add: failedShape_def)
  qed
  have failed: "failedShape resp \<and> Error resp = ''Download failed: '' @ e \<and> err = Some e"
    if nr: "\<not> rejectedAtEntry req0" and ns: "\<not> skipsExisting en req0 w0"
      and d: "dispatch en ?req ?w = (Ran f (Some e), wd)"
    using DownloadTrack_downloads [OF nr ns] assms download_error [OF d]
    by (auto simp add: finish_def onError_def failedShape_def emptyResponse_def)
  have fresh: "freshShape resp \<and> File resp = f"
    if nr: "\<not> rejectedAtEntry req0" and ns: "\<not> skipsExisting en req0 w0"
      and d: "dispatch en ?req ?w = (Ran f None, wd)" and p: "\<not> HasPrefix f ''EXISTS:''"
    using DownloadTrack_downloads [OF nr ns] assms download_success [OF d] p
    by (auto simp add: finish_def onSuccess_def freshShape_def Let_def)
  have marker: "existingShape resp
                 \<and> resp = \<lparr>Success = True, Message = ''File already exists'',
                            File = TrimPrefix f ''EXISTS:'', Error = [], AlreadyExists = True,
                            RespItemID = ?i\<rparr>
                 \<and> File resp = drop 7 f
                 \<and> newEvents wd w1 = [CallSkipDownloadItem ?i (drop 7 f), CallSetDownloading False]
                 \<and> (itemOpen req0 w0 \<longrightarrow>
                      itemState w1 ?i = Some Skipped
                      \<and> map_option filePath (queue w1 ?i) = Some (drop 7 f))
                 \<and> (\<not> itemOpen req0 w0 \<longrightarrow> queue w1 = queue w0)"
    if nr: "\<not> rejectedAtEntry req0" and ns: "\<not> skipsExisting en req0 w0"
      and d: "dispatch en ?req ?w = (Ran f None, wd)" and p: "HasPrefix f ''EXISTS:''"
  proof -
    let ?f = "drop 7 f"
    have "length ''EXISTS:'' = 7" by simp
    then have tp: "TrimPrefix f ''EXISTS:'' = ?f"
      using p by (simp only: TrimPrefix_def if_True)
    have w1: "w1 = SetDownloading False (SkipDownloadItem ?i ?f wd)"
      and r: "resp = \<lparr>Success = True, Message = ''File already exists'', File = ?f, Error = [],
                       AlreadyExists = True, RespItemID = ?i\<rparr>"
      using DownloadTrack_downloads [OF nr ns] assms download_success [OF d] p tp
      by (simp_all add: finish_def onSuccess_def Let_def)
    have t: "trace w1 = trace wd @ [CallSkipDownloadItem ?i ?f, CallSetDownloading False]"
      by (simp add: w1)
    have qd: "queue wd = queue ?w"
      using queue_dispatch [of en ?req ?w] d by simp
    have st: "itemState w1 ?i = Some Skipped \<and> map_option filePath (queue w1 ?i) = Some ?f"
      if "itemOpen req0 w0"
    proof -
      have "itemState wd ?i = Some Downloading"
        using itemState_dispatch [of en ?req ?w ?i] atSwitch_itemState [OF that, of en] d by simp
      from itemState_Skip [OF this, of ?f] show ?thesis
        by (simp add: w1 SetDownloading_def itemState_def)
    qed
    have closed: "queue w1 = queue w0" if c: "\<not> itemOpen req0 w0"
    proof -
      have q0: "queue wd = queue w0"
        using qd atSwitch_queue_closed [OF c, of en] by simp
      have id: "?i = ItemID req0"
        using c by (simp add: itemOpen_def itemIDof_def)
      have "itemState wd ?i \<noteq> Some Downloading"
        using c q0 by (simp add: itemOpen_def itemState_def id)
      from SkipDownloadItem_closed [OF this, of ?f] q0 show ?thesis
        by (simp add: w1 SetDownloading_def)
    qed
    show ?thesis
      using newEvents_append [OF t] st closed by (simp add: r tp existingShape_def)
  qed
  have at_switch: "(d = Returned r e \<longrightarrow> failedShape resp \<and> resp = r \<and> err = Some e)
            \<and> (d = Ran f (Some e) \<longrightarrow>
                 failedShape resp \<and> Error resp = ''Download failed: '' @ e \<and> err = Some e)
            \<and> (d = Ran f None \<and> \<not> HasPrefix f ''EXISTS:'' \<longrightarrow>
                 freshShape resp \<and> File resp = f)
            \<and> (d = Ran f None \<and> HasPrefix f ''EXISTS:'' \<longrightarrow>
                 existingShape resp
                 \<and> resp = \<lparr>Success = True, Message = ''File already exists'',
                            File = TrimPrefix f ''EXISTS:'', Error = [], AlreadyExists = True,
                            RespItemID = ?i\<rparr>
                 \<and> File resp = drop 7 f
                 \<and> newEvents wd w1 = [CallSkipDownloadItem ?i (drop 7 f), CallSetDownloading False]
                 \<and> (itemOpen req0 w0 \<longrightarrow>
                      itemState w1 ?i = Some Skipped
                      \<and> map_option filePath (queue w1 ?i) = Some (drop 7 f))
                 \<and> (\<not> itemOpen req0 w0 \<longrightarrow> queue w1 = queue w0))"
    if "\<not> rejectedAtEntry req0" and "\<not> skipsExisting en req0 w0"
      and "dispatch en ?req ?w = (d, wd)"
    using that returned failed fresh marker by blast
  show ?thesis
    using one err_iff rej skp at_switch by blast
qed

text \<open>The theorem at work on four calls: a strategy that answers
  \<open>EXISTS:out/T - A.flac\<close>, one that fails, one that writes the file, and a call that is
  turned away at entry.\<close>

theorem response_shape_tells_outcome_witness:
  "HasPrefix ''EXISTS:out/T - A.flac'' ''EXISTS:'' \<and> itemOpen trackTA emptyWorld
   \<and> fst (dispatch existsEnv (plannedRequest existsEnv trackTA) (atSwitch existsEnv trackTA emptyWorld))
       = Ran ''EXISTS:out/T - A.flac'' None
   \<and> existingShape (fst (DownloadTrack existsEnv trackTA emptyWorld))
   \<and> File (fst (DownloadTrack existsEnv trackTA emptyWorld)) = ''out/T - A.flac''
   \<and> itemState (snd (snd (DownloadTrack existsEnv trackTA emptyWorld))) ''abc-7'' = Some Skipped
   \<and> fst (dispatch partialEnv (plannedRequest partialEnv trackTA) (atSwitch partialEnv trackTA emptyWorld))
       = Ran ''out/part.flac'' (Some ''connection reset'')
   \<and> failedShape (fst (DownloadTrack partialEnv trackTA emptyWorld))
   \<and> Error (fst (DownloadTrack partialEnv trackTA emptyWorld)) = ''Download failed: connection reset''
   \<and> fst (dispatch fetchDownEnv (plannedRequest fetchDownEnv trackTA) (atSwitch fetchDownEnv trackTA emptyWorld))
       = Ran ''out/T - A.flac'' None
   \<and> freshShape (fst (DownloadTrack fetchDownEnv trackTA emptyWorld))
   \<and> File (fst (DownloadTrack fetchDownEnv trackTA emptyWorld)) = ''out/T - A.flac''
   \<and> rejectedAtEntry (emptyRequest\<lparr>Service := ''qobuz''\<rparr>)
   \<and> failedShape (fst (DownloadTrack offlineEnv (emptyRequest\<lparr>Service := ''qobuz''\<rparr>) emptyWorld))"
proof -
  let ?x = "DownloadTrack existsEnv trackTA emptyWorld"
  let ?dx = "dispatch existsEnv (plannedRequest existsEnv trackTA) (atSwitch existsEnv trackTA emptyWorld)"
  let ?p = "DownloadTrack partialEnv trackTA emptyWorld"
  let ?dp = "dispatch partialEnv (plannedRequest partialEnv trackTA) (atSwitch partialEnv trackTA emptyWorld)"
  let ?n = "DownloadTrack fetchDownEnv trackTA emptyWorld"
  let ?dn = "dispatch fetchDownEnv (plannedRequest fetchDownEnv trackTA) (atSwitch fetchDownEnv trackTA emptyWorld)"
  let ?q = "DownloadTrack offlineEnv (emptyRequest\<lparr>Service := ''qobuz''\<rparr>) emptyWorld"
  have nr: "\<not> rejectedAtEntry trackTA"
    by (simp add: rejectedAtEntry_def example_defs)
  have op: "itemOpen trackTA emptyWorld"
    by (simp add: itemOpen_def example_defs)
  have hp: "HasPrefix ''EXISTS:out/T - A.flac'' ''EXISTS:''"
    and np: "\<not> HasPrefix ''out/T - A.flac'' ''EXISTS:''"
    by (simp_all add: HasPrefix_def)
  have sx: "\<not> skipsExisting existsEnv trackTA emptyWorld"
    and sp: "\<not> skipsExisting partialEnv trackTA emptyWorld"
    and sn: "\<not> skipsExisting fetchDownEnv trackTA emptyWorld"
    by (simp_all add: model_defs notion_defs example_defs Let_def)
  have fx: "fst ?dx = Ran ''EXISTS:out/T - A.flac'' None"
    by (simp add: model_defs notion_defs example_defs Let_def)
  have fp: "fst ?dp = Ran ''out/part.flac'' (Some ''connection reset'')"
    by (simp add: model_defs notion_defs example_defs Let_def)
  have fn: "fst ?dn = Ran ''out/T - A.flac'' None"
    by (simp add: model_defs notion_defs example_defs Let_def)
  have dx: "?dx = (Ran ''EXISTS:out/T - A.flac'' None, snd ?dx)"
    using fx by (cases ?dx) simp
  have dp: "?dp = (Ran ''out/part.flac'' (Some ''connection reset''), snd ?dp)"
    using fp by (cases ?dp) simp
  have dn: "?dn = (Ran ''out/T - A.flac'' None, snd ?dn)"
    using fn by (cases ?dn) simp
  have id: "itemIDof existsEnv trackTA = ''abc-7''"
    by (simp add: model_defs notion_defs example_defs)
  have rq: "rejectedAtEntry (emptyRequest\<lparr>Service := ''qobuz''\<rparr>)"
    by (simp add: rejectedAtEntry_def example_defs)
  have hx: "?x = (fst ?x, fst (snd ?x), snd (snd ?x))"
    and hpp: "?p = (fst ?p, fst (snd ?p), snd (snd ?p))"
    and hn: "?n = (fst ?n, fst (snd ?n), snd (snd ?n))"
    and hq: "?q = (fst ?q, fst (snd ?q), snd (snd ?q))"
    by simp_all
  from response_shape_tells_outcome [OF hx, where d = "Ran ''EXISTS:out/T - A.flac'' None"
      and wd = "snd ?dx" and f = "''EXISTS:out/T - A.flac''"]
  have a: "existingShape (fst ?x) \<and> File (fst ?x) = ''out/T - A.flac''
        \<and> itemState (snd (snd ?x)) ''abc-7'' = Some Skipped"
    using nr sx dx hp op id by (simp add: TrimPrefix_def HasPrefix_def existingShape_def)
  from response_shape_tells_outcome [OF hpp, where d = "Ran ''out/part.flac'' (Some ''connection reset'')"
      and wd = "snd ?dp" and f = "''out/part.flac''" and e = "''connection reset''"]
  have b: "failedShape (fst ?p) \<and> Error (fst ?p) = ''Download failed: connection reset''"
    using nr sp dp by simp
  from response_shape_tells_outcome [OF hn, where d = "Ran ''out/T - A.flac'' None"
      and wd = "snd ?dn" and f = "''out/T - A.flac''"]
  have c: "freshShape (fst ?n) \<and> File (fst ?n) = ''out/T - A.flac''"
    using nr sn dn np by simp
  from response_shape_tells_outcome [OF hq]
  have d: "failedShape (fst ?q)"
    using rq by blast
  show ?thesis
    using a b c d hp op fx fp fn rq by simp
qed

text \<open>
  A caller retries the item \<open>job1\<close>, which is in state Failed, and the strategy
  answers \<open>EXISTS:out/T - A.flac\<close>.  The response says \<open>AlreadyExists\<close> and
  \<open>SkipDownloadItem\<close> is called, but the item, being in a terminal state, is not
  marked Skipped.
\<close>

theorem terminal_item_not_skipped_counterexample:
  "fst (dispatch existsEnv (plannedRequest existsEnv (trackTA\<lparr>ItemID := ''job1''\<rparr>))
          (atSwitch existsEnv (trackTA\<lparr>ItemID := ''job1''\<rparr>) retryWorld))
     = Ran ''EXISTS:out/T - A.flac'' None
   \<and> fst (DownloadTrack existsEnv (trackTA\<lparr>ItemID := ''job1''\<rparr>) retryWorld)
     = \<lparr>Success = True, Message = ''File already exists'', File = ''out/T - A.flac'',
        Error = [], AlreadyExists = True, RespItemID = ''job1''\<rparr>
   \<and> trace (snd (snd (DownloadTrack existsEnv (trackTA\<lparr>ItemID := ''job1''\<rparr>) retryWorld)))
     = [CallSetDownloading True, CallStartDownloadItem ''job1'',
        FetchSpotifyData ''https://open.spotify.com/track/abc'', Stat ''out/T - A.flac'',
        RunStrategy TidalFallbackDownload,
        CallSkipDownloadItem ''job1'' ''out/T - A.flac'', CallSetDownloading False]
   \<and> itemState retryWorld ''job1'' = Some Failed
   \<and> itemState (snd (snd (DownloadTrack existsEnv (trackTA\<lparr>ItemID := ''job1''\<rparr>) retryWorld)))
        ''job1'' = Some Failed"
  by (simp add: model_defs notion_defs example_defs Let_def)

section \<open>Properties: the metadata backfill\<close>

lemma fillAbsent_keeps:
  "Copyright r \<noteq> [] \<Longrightarrow> Copyright (fillAbsent t r) = Copyright r"
  "Publisher r \<noteq> [] \<Longrightarrow> Publisher (fillAbsent t r) = Publisher r"
  "SpotifyTotalDiscs r \<noteq> 0 \<Longrightarrow> SpotifyTotalDiscs (fillAbsent t r) = SpotifyTotalDiscs r"
  "SpotifyTotalTracks r \<noteq> 0 \<Longrightarrow> SpotifyTotalTracks (fillAbsent t r) = SpotifyTotalTracks r"
  "SpotifyTrackNumber r \<noteq> 0 \<Longrightarrow> SpotifyTrackNumber (fillAbsent t r) = SpotifyTrackNumber r"
  "ReleaseDate r \<noteq> [] \<Longrightarrow> ReleaseDate (fillAbsent t r) = ReleaseDate r"
  by (simp_all add: fillAbsent_def Let_def)

lemma fillAbsent_others: "unchangedOutsideBackfill (fillAbsent t r) r"
  by (simp add: unchangedOutsideBackfill_def fillAbsent_def Let_def)

text \<open>
  Claim C8.  The backfill runs only when a Spotify ID is present and one of the six
  fields is missing; otherwise neither the request nor the state changes.  When it
  runs, each of the six fields that was non-empty (non-zero) keeps its value, and no
  field other than these six changes at all.  When the fetch fails the request is
  exactly what it was, and the call goes on to the existence check and the dispatch
  with the request as the defaults left it.
\<close>

theorem backfill_fills_only_absent:
  "(\<not> needsBackfill r \<longrightarrow> backfill en r w = (r, w))
   \<and> (Copyright r \<noteq> [] \<longrightarrow> Copyright (backfillFields en r) = Copyright r)
   \<and> (Publisher r \<noteq> [] \<longrightarrow> Publisher (backfillFields en r) = Publisher r)
   \<and> (SpotifyTotalDiscs r \<noteq> 0 \<longrightarrow> SpotifyTotalDiscs (backfillFields en r) = SpotifyTotalDiscs r)
   \<and> (SpotifyTotalTracks r \<noteq> 0 \<longrightarrow> SpotifyTotalTracks (backfillFields en r) = SpotifyTotalTracks r)
   \<and> (SpotifyTrackNumber r \<noteq> 0 \<longrightarrow> SpotifyTrackNumber (backfillFields en r) = SpotifyTrackNumber r)
   \<and> (ReleaseDate r \<noteq> [] \<longrightarrow> ReleaseDate (backfillFields en r) = ReleaseDate r)
   \<and> unchangedOutsideBackfill (backfillFields en r) r
   \<and> (GetFilteredSpotifyData en (trackURL r) = Inl fetchErr \<longrightarrow> backfillFields en r = r)
   \<and> (GetFilteredSpotifyData en (trackURL req0) = Inl fetchErr \<and> \<not> rejectedAtEntry req0 \<longrightarrow>
        plannedRequest en req0 = normalize en req0
        \<and> DownloadTrack en req0 w0 =
            finish (proceed en (normalize en req0) (itemIDof en req0) (snd (snd (prepare en req0 w0)))))"
proof -
  have keep: "(Copyright r \<noteq> [] \<longrightarrow> Copyright (backfillFields en r) = Copyright r)
   \<and> (Publisher r \<noteq> [] \<longrightarrow> Publisher (backfillFields en r) = Publisher r)
   \<and> (SpotifyTotalDiscs r \<noteq> 0 \<longrightarrow> SpotifyTotalDiscs (backfillFields en r) = SpotifyTotalDiscs r)
   \<and> (SpotifyTotalTracks r \<noteq> 0 \<longrightarrow> SpotifyTotalTracks (backfillFields en r) = SpotifyTotalTracks r)
   \<and> (SpotifyTrackNumber r \<noteq> 0 \<longrightarrow> SpotifyTrackNumber (backfillFields en r) = SpotifyTrackNumber r)
   \<and> (ReleaseDate r \<noteq> [] \<longrightarrow> ReleaseDate (backfillFields en r) = ReleaseDate r)"
    by (simp add: backfillFields_def fillAbsent_keeps split: sum.splits option.splits)
  have others: "unchangedOutsideBackfill (backfillFields en r) r"
    using fillAbsent_others [of _ r]
    by (simp add: backfillFields_def unchangedOutsideBackfill_def split: sum.splits option.splits)
  have idle: "\<not> needsBackfill r \<longrightarrow> backfill en r w = (r, w)"
    by (simp add: backfill_def backfillFields_def)
  have failed: "GetFilteredSpotifyData en (trackURL r) = Inl fetchErr \<longrightarrow> backfillFields en r = r"
    by (simp add: backfillFields_def)
  have goes_on: "plannedRequest en req0 = normalize en req0
        \<and> DownloadTrack en req0 w0 =
            finish (proceed en (normalize en req0) (itemIDof en req0) (snd (snd (prepare en req0 w0))))"
    if f: "GetFilteredSpotifyData en (trackURL req0) = Inl fetchErr" and nr: "\<not> rejectedAtEntry req0"
  proof -
    have "plannedRequest en req0 = normalize en req0"
      using f by (simp add: plannedRequest_def backfillFields_def trackURL_normalize)
    with DownloadTrack_proceeds [OF nr, of en w0] show ?thesis by simp
  qed
  show ?thesis
    using keep others idle failed goes_on by blast
qed

text \<open>The theorem at work: a caller who supplies the copyright keeps it while the publisher
  is filled in; and a call whose fetch times out still downloads.\<close>

theorem backfill_fills_only_absent_witness:
  "needsBackfill (trackTA\<lparr>Copyright := ''mine''\<rparr>)
   \<and> Copyright (backfillFields metaEnv (trackTA\<lparr>Copyright := ''mine''\<rparr>)) = ''mine''
   \<and> Publisher (backfillFields metaEnv (trackTA\<lparr>Copyright := ''mine''\<rparr>)) = ''Label''
   \<and> GetFilteredSpotifyData fetchDownEnv (trackURL trackTA) = Inl ''timeout''
   \<and> \<not> rejectedAtEntry trackTA
   \<and> plannedRequest fetchDownEnv trackTA = normalize fetchDownEnv trackTA
   \<and> fst (DownloadTrack fetchDownEnv trackTA emptyWorld)
       = \<lparr>Success = True, Message = ''Download completed successfully'', File = ''out/T - A.flac'',
          Error = [], AlreadyExists = False, RespItemID = ''abc-7''\<rparr>"
proof -
  let ?r = "trackTA\<lparr>Copyright := ''mine''\<rparr>"
  have h1: "Copyright ?r \<noteq> []" by simp
  have h2: "GetFilteredSpotifyData fetchDownEnv (trackURL trackTA) = Inl ''timeout''"
    by (simp add: example_defs)
  have h3: "\<not> rejectedAtEntry trackTA"
    by (simp add: rejectedAtEntry_def example_defs)
  have e1: "needsBackfill ?r"
    by (simp add: needsBackfill_def example_defs)
  have e2: "Publisher (backfillFields metaEnv ?r) = ''Label''"
    by (simp add: model_defs example_defs Let_def)
  have e3: "fst (DownloadTrack fetchDownEnv trackTA emptyWorld)
       = \<lparr>Success = True, Message = ''Download completed successfully'', File = ''out/T - A.flac'',
          Error = [], AlreadyExists = False, RespItemID = ''abc-7''\<rparr>"
    by (simp add: model_defs example_defs Let_def)
  from backfill_fills_only_absent [of ?r metaEnv emptyWorld "''timeout''" trackTA emptyWorld]
  have k: "Copyright (backfillFields metaEnv ?r) = ''mine''"
    using h1 by simp
  from backfill_fills_only_absent [of trackTA fetchDownEnv emptyWorld "''timeout''" trackTA emptyWorld]
  have g: "plannedRequest fetchDownEnv trackTA = normalize fetchDownEnv trackTA"
    using h2 h3 by simp
  show ?thesis using k g h2 h3 e1 e2 e3 by simp
qed

section \<open>Properties: the Qobuz path\<close>

lemma planned_AudioFormat:
  "AudioFormat (plannedRequest en r) = (if AudioFormat r = [] then ''LOSSLESS'' else AudioFormat r)"
proof -
  have "AudioFormat (backfillFields en (normalize en r)) = AudioFormat (normalize en r)"
    by (simp add: backfillFields_def fillAbsent_def Let_def split: sum.splits option.splits)
  moreover have "AudioFormat (normalize en r) = (if AudioFormat r = [] then ''LOSSLESS'' else AudioFormat r)"
    by (simp add: normalize_def Let_def)
  ultimately show ?thesis by (simp add: plannedRequest_def)
qed

lemma providerCalls_invoke [simp]:
  "providerCalls (snd (invoke en st req w)) = providerCalls w @ [RunStrategy st]"
  by (simp add: invoke_def split: prod.splits)

lemma providerCalls_qobuzDownload:
  "providerCalls (snd (qobuzDownload en isrc q req w))
     = providerCalls w @ (if isrc = [] then [] else [RunStrategy (QobuzDownloadByISRC isrc q)])"
  by (simp add: qobuzDownload_def)

lemma dispatchQobuz_invalid:
  assumes "length (ISRC req) \<noteq> 12 \<or> \<not> isValidISRC (ISRC req)"
  shows "dispatchQobuz en req w =
     (if SpotifyID req \<noteq> [] then
        (case GetDeezerURLFromSpotify en (SpotifyID req) of
           Inl e \<Rightarrow> (failEarly (''Failed to get Deezer URL: '' @ e) e,
                     emit (SongLinkLookup (SpotifyID req)) w)
         | Inr deezerURL \<Rightarrow>
             (case GetDeezerISRC en deezerURL of
                Inl e \<Rightarrow> (failEarly (''Failed to get ISRC from Deezer: '' @ e) e,
                          emit (DeezerISRCLookup deezerURL) (emit (SongLinkLookup (SpotifyID req)) w))
              | Inr isrc \<Rightarrow>
                  qobuzDownload en isrc (if AudioFormat req = [] then ''6'' else AudioFormat req) req
                    (emit (DeezerISRCLookup deezerURL) (emit (SongLinkLookup (SpotifyID req)) w))))
      else (failEarly ''ISRC is required for Qobuz (could not fetch from Deezer)''
              ''ISRC is required for Qobuz'', w))"
proof -
  have d: "(if length (ISRC req) \<noteq> 12 \<or> \<not> isValidISRC (ISRC req) then [] else ISRC req) = []"
    using assms by simp
  show ?thesis
    unfolding dispatchQobuz_def Let_def d
    by (simp add: qobuzDownload_def)
qed

lemma providerCalls_dispatchQobuz_invalid:
  assumes "length (ISRC req) \<noteq> 12 \<or> \<not> isValidISRC (ISRC req)"
    and "SpotifyID req \<noteq> []" and "AudioFormat req \<noteq> []"
  shows "providerCalls (snd (dispatchQobuz en req w))
     = providerCalls w @
       SongLinkLookup (SpotifyID req) #
       (case GetDeezerURLFromSpotify en (SpotifyID req) of
          Inl e \<Rightarrow> []
        | Inr deezerURL \<Rightarrow>
            DeezerISRCLookup deezerURL #
            (case GetDeezerISRC en deezerURL of
               Inl e \<Rightarrow> []
             | Inr isrc \<Rightarrow>
                 if isrc = [] then []
                 else [RunStrategy (QobuzDownloadByISRC isrc (AudioFormat req))]))"
proof (cases "GetDeezerURLFromSpotify en (SpotifyID req)")
  case (Inl e)
  then show ?thesis
    using assms(2) by (simp add: dispatchQobuz_invalid [OF assms(1)])
next
  case (Inr url)
  show ?thesis
  proof (cases "GetDeezerISRC en url")
    case (Inl e)
    with Inr show ?thesis
      using assms(2) by (simp add: dispatchQobuz_invalid [OF assms(1)])
  next
    case isrc: (Inr isrc)
    with Inr show ?thesis
      using assms(2,3)
      by (simp add: dispatchQobuz_invalid [OF assms(1)] providerCalls_qobuzDownload)
  qed
qed

text \<open>
  Claim C9, as the code has it.  \<open>isValidISRC\<close> accepts exactly the 12-character
  codes of two capital letters, three capital letters or digits, and seven digits.  In
  the Qobuz branch an ISRC from the caller that is not of this form is thrown away.
  With a Spotify ID in the request, the SongLink and Deezer lookups are made in its
  place, and the strategy only ever runs with the ISRC that Deezer gave.  Without a
  Spotify ID nothing is looked up and the call fails for want of an ISRC.
\<close>

theorem isrc_format_and_qobuz_fallback:
  "isValidISRC s = specISRC s
   \<and> (\<not> rejectedAtEntry req0 \<and> \<not> skipsExisting en req0 w0 \<and> Service req0 = ''qobuz''
       \<and> (length (ISRC req0) \<noteq> 12 \<or> \<not> isValidISRC (ISRC req0))
       \<and> DownloadTrack en req0 w0 = (resp, err, w1) \<longrightarrow>
       (SpotifyID req0 \<noteq> [] \<longrightarrow>
          providerCalls w1 = providerCalls w0 @ qobuzFallbackCalls en req0)
       \<and> (SpotifyID req0 = [] \<longrightarrow>
          providerCalls w1 = providerCalls w0
          \<and> err = Some ''ISRC is required for Qobuz''
          \<and> Error resp = ''ISRC is required for Qobuz (could not fetch from Deezer)''))"
proof -
  have path: "(SpotifyID req0 \<noteq> [] \<longrightarrow>
          providerCalls w1 = providerCalls w0 @ qobuzFallbackCalls en req0)
       \<and> (SpotifyID req0 = [] \<longrightarrow>
          providerCalls w1 = providerCalls w0
          \<and> err = Some ''ISRC is required for Qobuz''
          \<and> Error resp = ''ISRC is required for Qobuz (could not fetch from Deezer)'')"
    if nr: "\<not> rejectedAtEntry req0" and ns: "\<not> skipsExisting en req0 w0"
      and q: "Service req0 = ''qobuz''"
      and inv: "length (ISRC req0) \<noteq> 12 \<or> \<not> isValidISRC (ISRC req0)"
      and run: "DownloadTrack en req0 w0 = (resp, err, w1)"
  proof -
    let ?req = "plannedRequest en req0"
    let ?w = "atSwitch en req0 w0"
    have inv': "length (ISRC ?req) \<noteq> 12 \<or> \<not> isValidISRC (ISRC ?req)"
      using inv by (simp add: planned_frame)
    have af: "AudioFormat ?req \<noteq> []"
      by (simp add: planned_AudioFormat)
    have d: "dispatch en ?req ?w = dispatchQobuz en ?req ?w"
      using q by (simp add: dispatch_def planned_frame)
    have dl: "(resp, err, w1) = finish (download en ?req (itemIDof en req0) ?w)"
      using DownloadTrack_downloads [OF nr ns] run by simp
    have pc: "providerCalls w1 = providerCalls (snd (dispatchQobuz en ?req ?w))"
      using providerCalls_finish [of "download en ?req (itemIDof en req0) ?w"]
        providerCalls_download [of en ?req "itemIDof en req0" ?w] d dl [symmetric]
      by simp
    have with_id: "providerCalls w1 = providerCalls w0 @ qobuzFallbackCalls en req0"
      if sid: "SpotifyID req0 \<noteq> []"
    proof -
      have "SpotifyID ?req \<noteq> []" using sid by (simp add: planned_frame)
      from providerCalls_dispatchQobuz_invalid [OF inv' this af, of en ?w]
      show ?thesis
        by (simp add: pc providerCalls_atSwitch qobuzFallbackCalls_def planned_frame
            planned_AudioFormat split: sum.splits)
    qed
    have without_id: "providerCalls w1 = providerCalls w0
          \<and> err = Some ''ISRC is required for Qobuz''
          \<and> Error resp = ''ISRC is required for Qobuz (could not fetch from Deezer)''"
      if sid: "SpotifyID req0 = []"
    proof -
      have dq: "dispatchQobuz en ?req ?w =
          (failEarly ''ISRC is required for Qobuz (could not fetch from Deezer)''
             ''ISRC is required for Qobuz'', ?w)"
        using sid by (simp add: dispatchQobuz_invalid [OF inv'] planned_frame)
      have "download en ?req (itemIDof en req0) ?w =
          (emptyResponse\<lparr>Success := False,
             Error := ''ISRC is required for Qobuz (could not fetch from Deezer)''\<rparr>,
           Some ''ISRC is required for Qobuz'', ?w)"
        using d dq by (simp add: download_def failEarly_def)
      with dl show ?thesis
        by (simp add: finish_def providerCalls_atSwitch)
    qed
    show ?thesis using with_id without_id by blast
  qed
  show ?thesis
    using isValidISRC_iff_spec [of s] path by blast
qed

text \<open>The theorem at work: the ISRC \<open>bad\<close> with a Spotify ID, both lookups answering.\<close>

theorem isrc_format_and_qobuz_fallback_witness:
  "isValidISRC ''USRC17607839''
   \<and> \<not> rejectedAtEntry (trackTA\<lparr>Service := ''qobuz'', ISRC := ''bad''\<rparr>)
   \<and> \<not> skipsExisting deezerEnv (trackTA\<lparr>Service := ''qobuz'', ISRC := ''bad''\<rparr>) emptyWorld
   \<and> length (ISRC (trackTA\<lparr>Service := ''qobuz'', ISRC := ''bad''\<rparr>)) \<noteq> 12
   \<and> providerCalls (snd (snd (DownloadTrack deezerEnv (trackTA\<lparr>Service := ''qobuz'', ISRC := ''bad''\<rparr>)
        emptyWorld)))
       = [SongLinkLookup ''abc'', DeezerISRCLookup ''https://deezer/abc'',
          RunStrategy (QobuzDownloadByISRC ''USRC17607839'' ''LOSSLESS'')]"
proof -
  let ?req = "trackTA\<lparr>Service := ''qobuz'', ISRC := ''bad''\<rparr>"
  let ?r = "DownloadTrack deezerEnv ?req emptyWorld"
  have v: "specISRC ''USRC17607839''"
    by (simp add: specISRC_def isUpper_def isDigit_def)
  have h1: "\<not> rejectedAtEntry ?req"
    by (simp add: rejectedAtEntry_def example_defs)
  have h2: "\<not> skipsExisting deezerEnv ?req emptyWorld"
    by (simp add: model_defs notion_defs example_defs Let_def)
  have h3: "Service ?req = ''qobuz''" by simp
  have h4: "length (ISRC ?req) \<noteq> 12" by simp
  have h5: "?r = (fst ?r, fst (snd ?r), snd (snd ?r))" by simp
  have sid: "SpotifyID ?req \<noteq> []" by (simp add: example_defs)
  have p0: "providerCalls emptyWorld = []"
    by (simp add: providerCalls_def emptyWorld_def)
  have calls: "qobuzFallbackCalls deezerEnv ?req
      = [SongLinkLookup ''abc'', DeezerISRCLookup ''https://deezer/abc'',
         RunStrategy (QobuzDownloadByISRC ''USRC17607839'' ''LOSSLESS'')]"
    by (simp add: qobuzFallbackCalls_def example_defs)
  from isrc_format_and_qobuz_fallback [of "''USRC17607839''" ?req deezerEnv emptyWorld
      "fst ?r" "fst (snd ?r)" "snd (snd ?r)"]
  have "isValidISRC ''USRC17607839''
        \<and> providerCalls (snd (snd ?r)) = providerCalls emptyWorld @ qobuzFallbackCalls deezerEnv ?req"
    using v h1 h2 h3 h4 h5 sid by blast
  then show ?thesis
    using h1 h2 h4 p0 calls by simp
qed

text \<open>
  Without a Spotify ID the ISRC \<open>bad\<close> is thrown away and nothing is looked up, in
  surroundings where both lookups would have answered.
\<close>

theorem qobuz_no_lookup_counterexample:
  "ISRC (emptyRequest\<lparr>Service := ''qobuz'', ISRC := ''bad''\<rparr>) \<noteq> []
   \<and> length (ISRC (emptyRequest\<lparr>Service := ''qobuz'', ISRC := ''bad''\<rparr>)) \<noteq> 12
   \<and> GetDeezerURLFromSpotify deezerEnv [] = Inr ''https://deezer/''
   \<and> providerCalls (snd (snd (DownloadTrack deezerEnv
        (emptyRequest\<lparr>Service := ''qobuz'', ISRC := ''bad''\<rparr>) emptyWorld))) = []
   \<and> fst (snd (DownloadTrack deezerEnv (emptyRequest\<lparr>Service := ''qobuz'', ISRC := ''bad''\<rparr>)
        emptyWorld)) = Some ''ISRC is required for Qobuz''"
  by (simp add: model_defs notion_defs example_defs Let_def)

section \<open>Properties: the batch check\<close>

lemma collect_step_length:
  "length (foldl (\<lambda>results r. results[fst r := snd r]) init msgs) = length init"
  by (induction msgs arbitrary: init) simp_all

lemma collect_step_nth:
  assumes "i < length init"
  shows "foldl (\<lambda>results r. results[fst r := snd r]) init (map (\<lambda>k. (k, f k)) ks) ! i
           = (if i \<in> set ks then f i else init ! i)"
  using assms
proof (induction ks arbitrary: init)
  case Nil
  then show ?case by simp
next
  case (Cons k ks)
  have len: "i < length (init[k := f k])"
    using Cons.prems by simp
  show ?case
  proof (cases "i \<in> set ks")
    case True
    with Cons.IH [OF len] show ?thesis by simp
  next
    case False
    with Cons.IH [OF len] Cons.prems show ?thesis
      by (cases "i = k") simp_all
  qed
qed

lemma collect_all:
  assumes "mset order = mset [0..<n]"
  shows "collect n (map (\<lambda>k. (k, f k)) order) = map f [0..<n]"
proof -
  have len: "length order = n"
    using assms by (metis length_upt mset_eq_length diff_zero)
  have mem: "set order = {0..<n}"
    using assms by (metis mset_eq_setD set_upt)
  have tk: "take n (map (\<lambda>k. (k, f k)) order) = map (\<lambda>k. (k, f k)) order"
    using len by simp
  show ?thesis
  proof (rule nth_equalityI)
    show "length (collect n (map (\<lambda>k. (k, f k)) order)) = length (map f [0..<n])"
      by (simp add: collect_def collect_step_length)
  next
    fix i
    assume "i < length (collect n (map (\<lambda>k. (k, f k)) order))"
    then have i: "i < n"
      by (simp add: collect_def collect_step_length)
    then have "i < length (replicate n zeroResult)" by simp
    from collect_step_nth [OF this, of f order] i mem
    show "collect n (map (\<lambda>k. (k, f k)) order) ! i = map f [0..<n] ! i"
      by (simp add: collect_def tk)
  qed
qed

text \<open>
  Claim C6.  Whatever the order in which the goroutines finish, as long as each of the
  \<open>N\<close> goroutines delivers its one message, the result list has \<open>N\<close> entries and
  entry \<open>i\<close> is what the check of track \<open>i\<close> produced: it carries that track's Spotify
  ID, name and artist.  A track without name or without artist gives \<open>Exists = False\<close>
  and its check hands no path to \<open>os.Stat\<close>.  The empty list gives the empty list.
\<close>

theorem batch_check_keeps_input_order:
  assumes "mset order = mset [0..<length tracks]"
  shows "CheckFilesExistence en fs order outputDir tracks
           = map (\<lambda>t. fst (checkTrack en fs (NormalizePath en outputDir) t)) tracks
       \<and> length (CheckFilesExistence en fs order outputDir tracks) = length tracks
       \<and> (\<forall>i < length tracks.
            CheckFilesExistence en fs order outputDir tracks ! i
              = fst (checkTrack en fs (NormalizePath en outputDir) (tracks ! i))
            \<and> resSpotifyID (CheckFilesExistence en fs order outputDir tracks ! i) = chkSpotifyID (tracks ! i)
            \<and> resTrackName (CheckFilesExistence en fs order outputDir tracks ! i) = chkTrackName (tracks ! i)
            \<and> resArtistName (CheckFilesExistence en fs order outputDir tracks ! i) = chkArtistName (tracks ! i)
            \<and> (chkTrackName (tracks ! i) = [] \<or> chkArtistName (tracks ! i) = [] \<longrightarrow>
                 \<not> resExists (CheckFilesExistence en fs order outputDir tracks ! i)
                 \<and> snd (checkTrack en fs (NormalizePath en outputDir) (tracks ! i)) = []))
       \<and> CheckFilesExistence en fs order' outputDir [] = []"
proof -
  let ?f = "\<lambda>t. fst (checkTrack en fs (NormalizePath en outputDir) t)"
  have eq: "CheckFilesExistence en fs order outputDir tracks = map ?f tracks"
  proof (cases "tracks = []")
    case True
    then show ?thesis by (simp add: CheckFilesExistence_def)
  next
    case False
    have "collect (length tracks) (map (\<lambda>k. (k, ?f (tracks ! k))) order)
            = map (\<lambda>k. ?f (tracks ! k)) [0..<length tracks]"
      by (rule collect_all [OF assms])
    also have "\<dots> = map ?f tracks"
      by (rule nth_equalityI) simp_all
    finally show ?thesis
      using False by (simp add: CheckFilesExistence_def Let_def)
  qed
  have fields: "resSpotifyID (?f t) = chkSpotifyID t \<and> resTrackName (?f t) = chkTrackName t
      \<and> resArtistName (?f t) = chkArtistName t" for t
    by (simp add: checkTrack_def Let_def)
  have nameless: "\<not> resExists (?f t) \<and> snd (checkTrack en fs (NormalizePath en outputDir) t) = []"
    if "chkTrackName t = [] \<or> chkArtistName t = []" for t
    using that by (auto simp add: checkTrack_def Let_def)
  have empty: "CheckFilesExistence en fs order' outputDir [] = []"
    by (simp add: CheckFilesExistence_def)
  show ?thesis
    using fields nameless empty by (simp add: eq)
qed

text \<open>The theorem at work: three tracks, the third goroutine finishing first; the second
  track has no name.\<close>

theorem batch_check_keeps_input_order_witness:
  "mset [2, 0, 1] = mset [0..<length [emptyCheck\<lparr>chkSpotifyID := ''a'', chkTrackName := ''T'', chkArtistName := ''A''\<rparr>,
        emptyCheck\<lparr>chkSpotifyID := ''b''\<rparr>,
        emptyCheck\<lparr>chkSpotifyID := ''c'', chkTrackName := ''U'', chkArtistName := ''B''\<rparr>]]
   \<and> map resSpotifyID (CheckFilesExistence offlineEnv [''out/T - A.flac'' \<mapsto> 5242880] [2, 0, 1] ''out''
       [emptyCheck\<lparr>chkSpotifyID := ''a'', chkTrackName := ''T'', chkArtistName := ''A''\<rparr>,
        emptyCheck\<lparr>chkSpotifyID := ''b''\<rparr>,
        emptyCheck\<lparr>chkSpotifyID := ''c'', chkTrackName := ''U'', chkArtistName := ''B''\<rparr>])
     = [''a'', ''b'', ''c'']
   \<and> map resExists (CheckFilesExistence offlineEnv [''out/T - A.flac'' \<mapsto> 5242880] [2, 0, 1] ''out''
       [emptyCheck\<lparr>chkSpotifyID := ''a'', chkTrackName := ''T'', chkArtistName := ''A''\<rparr>,
        emptyCheck\<lparr>chkSpotifyID := ''b''\<rparr>,
        emptyCheck\<lparr>chkSpotifyID := ''c'', chkTrackName := ''U'', chkArtistName := ''B''\<rparr>])
     = [True, False, False]"
proof -
  let ?ts = "[emptyCheck\<lparr>chkSpotifyID := ''a'', chkTrackName := ''T'', chkArtistName := ''A''\<rparr>,
        emptyCheck\<lparr>chkSpotifyID := ''b''\<rparr>,
        emptyCheck\<lparr>chkSpotifyID := ''c'', chkTrackName := ''U'', chkArtistName := ''B''\<rparr>]"
  have u: "[0..<length ?ts] = [0, 1, 2]"
    by (simp add: upt_rec)
  have h: "mset [2, 0, 1] = mset [0..<length ?ts]"
    unfolding u by (simp add: add_mset_commute)
  from batch_check_keeps_input_order [OF h, of offlineEnv "[''out/T - A.flac'' \<mapsto> 5242880]" "''out''" "[]"]
  have "CheckFilesExistence offlineEnv [''out/T - A.flac'' \<mapsto> 5242880] [2, 0, 1] ''out'' ?ts
      = map (\<lambda>t. fst (checkTrack offlineEnv [''out/T - A.flac'' \<mapsto> 5242880]
                (NormalizePath offlineEnv ''out'') t)) ?ts"
    by blast
  then show ?thesis
    using h
    by (simp add: checkTrack_def checkedPath_def largeEnough_def TrimSuffix_def HasSuffix_def
        example_defs Let_def)
qed

text \<open>The collecting loop run on two tracks that finish in reverse order.\<close>

lemma batch_check_example:
  "CheckFilesExistence offlineEnv [''out/T - A.flac'' \<mapsto> 5242880] [1, 0] ''out''
       [emptyCheck\<lparr>chkSpotifyID := ''a'', chkTrackName := ''T'', chkArtistName := ''A''\<rparr>,
        emptyCheck\<lparr>chkSpotifyID := ''b''\<rparr>]
     = [\<lparr>resSpotifyID = ''a'', resExists = True, resFilePath = ''out/T - A.flac'',
         resTrackName = ''T'', resArtistName = ''A''\<rparr>,
        \<lparr>resSpotifyID = ''b'', resExists = False, resFilePath = [],
         resTrackName = [], resArtistName = []\<rparr>]"
  by (simp add: CheckFilesExistence_def collect_def checkTrack_def checkedPath_def largeEnough_def
      TrimSuffix_def HasSuffix_def zeroResult_def example_defs Let_def)

section \<open>Properties: logging out\<close>

text \<open>
  Claim C10.  \<open>Logout\<close> is \<open>clearTokens\<close>, which empties the access token, the refresh
  token and the expiry before it looks for the token file.  Whatever it returns, the
  client it leaves behind is not authenticated.
\<close>

theorem logout_clears_authentication:
  assumes "Logout en c w = (r, c', w')"
  shows "\<not> IsAuthenticated c' \<and> accessToken c' = [] \<and> refreshToken c' = []
       \<and> expiresAt c' = ZeroTime \<and> codeVerifier c' = codeVerifier c"
  using assms
  by (auto simp add: Logout_def clearTokens_def IsAuthenticated_def Let_def
      split: sum.splits prod.splits)

text \<open>The theorem at work: the token file is not there, \<open>os.Remove\<close> fails, \<open>Logout\<close>
  returns the error, and the client is logged out all the same.\<close>

theorem logout_clears_authentication_witness:
  "IsAuthenticated loggedIn
   \<and> fst (Logout offlineEnv loggedIn emptyWorld)
       = Some ''remove /app/spotify_tokens.json: no such file or directory''
   \<and> \<not> IsAuthenticated (fst (snd (Logout offlineEnv loggedIn emptyWorld)))"
proof -
  let ?r = "Logout offlineEnv loggedIn emptyWorld"
  have h: "?r = (fst ?r, fst (snd ?r), snd (snd ?r))" by simp
  have a: "IsAuthenticated loggedIn"
    by (simp add: IsAuthenticated_def loggedIn_def)
  have e: "fst ?r = Some ''remove /app/spotify_tokens.json: no such file or directory''"
    by (simp add: Logout_def clearTokens_def getTokenPath_def osRemove_def emit_def Let_def
        example_defs)
  from logout_clears_authentication [OF h] show ?thesis
    using a e by simp
qed

end
